theory Spec2Isabelle
  imports Complex_Main "HOL-Library.Char_ord" "HOL-Library.List_Lexorder" "HOL-Library.AList"
begin

section \<open>JavaScript primitives used by the client\<close>

text \<open>
  Strings are byte lists; the emoji literals of the source are kept as their UTF-8 bytes.
  Numbers that the platform sends as integers (match ids, round numbers, roster ids,
  placement slots, ranks) are \<open>int\<close>.
\<close>

definition digit_char :: "nat \<Rightarrow> char" where
  "digit_char d = char_of (48 + d)"

fun digits :: "nat \<Rightarrow> string" where
  "digits n = (if n < 10 then [digit_char n] else digits (n div 10) @ [digit_char (n mod 10)])"

declare digits.simps [simp del]

text \<open>\<open>String(n)\<close> / template interpolation of an integer number.\<close>

definition show_int :: "int \<Rightarrow> string" where
  "show_int i = (if i < 0 then CHR ''-'' # digits (nat (- i)) else digits (nat i))"

text \<open>Interpolation of a possibly undefined number: \<open>`${x}`\<close>.\<close>

definition show_opt :: "int option \<Rightarrow> string" where
  "show_opt x = (case x of None \<Rightarrow> ''undefined'' | Some i \<Rightarrow> show_int i)"

text \<open>\<open>a || d\<close> on an optional string: undefined and the empty string are both falsy.\<close>

definition str_or :: "string option \<Rightarrow> string \<Rightarrow> string" where
  "str_or a d = (case a of None \<Rightarrow> d | Some s \<Rightarrow> if s = [] then d else s)"

text \<open>
  \<open>Object.keys(o).map(Number).sort()\<close>: the default comparator of \<open>sort\<close> compares the
  string renderings of the elements, whatever their type. The keys of an object are
  distinct, so the order in which \<open>Object.keys\<close> lists them does not reach the result.
\<close>

definition sorted_number_keys :: "(int \<times> 'v) list \<Rightarrow> int list" where
  "sorted_number_keys obj = sort_key show_int (map fst obj)"

text \<open>
  The grouping idiom \<open>if (!g[k]) g[k] = []; g[k].push(x)\<close> on an object \<open>g\<close>, kept as an
  association list with one entry per key.
\<close>

definition group_push :: "'k \<Rightarrow> 'v \<Rightarrow> ('k \<times> 'v list) list \<Rightarrow> ('k \<times> 'v list) list" where
  "group_push k x g =
     (case map_of g k of
        None \<Rightarrow> AList.update k [x] g
      | Some xs \<Rightarrow> AList.update k (xs @ [x]) g)"

definition group_by_key :: "('v \<Rightarrow> 'k) \<Rightarrow> 'v list \<Rightarrow> ('k \<times> 'v list) list" where
  "group_by_key f xs = fold (\<lambda>x g. group_push (f x) x g) xs []"

definition emoji_check :: string where
  "emoji_check = [CHR 0xE2, CHR 0x9C, CHR 0x85]"

definition emoji_hourglass :: string where
  "emoji_hourglass = [CHR 0xE2, CHR 0x8F, CHR 0xB3]"

definition emoji_gold :: string where
  "emoji_gold = [CHR 0xF0, CHR 0x9F, CHR 0xA5, CHR 0x87]"

definition emoji_silver :: string where
  "emoji_silver = [CHR 0xF0, CHR 0x9F, CHR 0xA5, CHR 0x88]"

definition emoji_bronze :: string where
  "emoji_bronze = [CHR 0xF0, CHR 0x9F, CHR 0xA5, CHR 0x89]"

section \<open>Bracket engine\<close>

text \<open>
  An optional field of the \<open>Match\<close> interface is an \<open>option\<close>: \<open>None\<close> is an absent
  (undefined) field.
\<close>

record from_ref =
  from_w :: "int option"
  from_l :: "int option"

record Match =
  mt_m :: int
  mt_r :: int
  mt_t1 :: "int option"
  mt_t2 :: "int option"
  mt_t1_from :: "from_ref option"
  mt_t2_from :: "from_ref option"
  mt_w :: "int option"
  mt_l :: "int option"
  mt_p :: "int option"

type_synonym roster_map = "int \<rightharpoonup> string"

text \<open>\<open>rosterToUser[id] || `Roster ${id}`\<close>, where \<open>id\<close> may be undefined (\<open>match.l!\<close>).\<close>

definition lookupName :: "roster_map \<Rightarrow> int option \<Rightarrow> string" where
  "lookupName rosterToUser rid =
     str_or (case rid of None \<Rightarrow> None | Some i \<Rightarrow> rosterToUser i) (''Roster '' @ show_opt rid)"

definition getTeamName :: "int option \<Rightarrow> from_ref option \<Rightarrow> roster_map option \<Rightarrow> string" where
  "getTeamName teamId teamFrom rosterToUser =
     (case (teamId, rosterToUser) of
        (Some tid, Some r2u) \<Rightarrow> str_or (r2u tid) (''Roster '' @ show_int tid)
      | _ \<Rightarrow>
          (case teamFrom of
             Some tf \<Rightarrow>
               (case from_w tf of
                  Some k \<Rightarrow> ''Winner of Match '' @ show_int k
                | None \<Rightarrow>
                    (case from_l tf of
                       Some k \<Rightarrow> ''Loser of Match '' @ show_int k
                     | None \<Rightarrow> ''TBD''))
           | None \<Rightarrow> ''TBD''))"

definition match_status :: "Match \<Rightarrow> roster_map \<Rightarrow> string" where
  "match_status match rosterToUser =
     (if mt_w match \<noteq> None
      then emoji_check @ '' '' @ lookupName rosterToUser (mt_w match) @ '' defeats ''
             @ lookupName rosterToUser (mt_l match)
      else emoji_hourglass @ '' Pending'')"

definition positionText :: "Match \<Rightarrow> string" where
  "positionText match =
     (case mt_p match of
        None \<Rightarrow> ''''
      | Some k \<Rightarrow> if k = 0 then '''' else '' (Position '' @ show_int k @ '')'')"

definition formatMatch :: "Match \<Rightarrow> roster_map \<Rightarrow> string" where
  "formatMatch match rosterToUser =
     ''  Match '' @ show_int (mt_m match) @ '': ''
       @ getTeamName (mt_t1 match) (mt_t1_from match) (Some rosterToUser) @ '' vs ''
       @ getTeamName (mt_t2 match) (mt_t2_from match) (Some rosterToUser) @ '' - ''
       @ match_status match rosterToUser @ positionText match"

definition round_header :: "int \<Rightarrow> string list" where
  "round_header roundNum =
     [CHR 0x0A # ''ROUND '' @ show_int roundNum @ '':'', replicate 20 (CHR ''-'')]"

definition format_round :: "(int \<times> Match list) list \<Rightarrow> roster_map \<Rightarrow> int \<Rightarrow> string list" where
  "format_round rounds rosterToUser roundNum =
     round_header roundNum
       @ map (\<lambda>match. formatMatch match rosterToUser)
           (sort_key mt_m (case map_of rounds roundNum of None \<Rightarrow> [] | Some ms \<Rightarrow> ms))"

definition formatBracket :: "Match list \<Rightarrow> roster_map \<Rightarrow> string list" where
  "formatBracket bracket rosterToUser =
     (if bracket = [] then [''No bracket data available'']
      else
        (let rounds = group_by_key mt_r bracket
         in concat (map (format_round rounds rosterToUser) (sorted_number_keys rounds))))"

text \<open>
  \<open>winnersBracket.reduce((max, match) => match.r > max.r ? match : max, winnersBracket[0])\<close>;
  on an empty array the initial value is undefined and is what \<open>reduce\<close> returns.
\<close>

definition winnersFinal :: "Match list \<Rightarrow> Match option" where
  "winnersFinal winnersBracket =
     (case winnersBracket of
        [] \<Rightarrow> None
      | first # _ \<Rightarrow>
          Some (fold (\<lambda>match mx. if mt_r match > mt_r mx then match else mx) winnersBracket first))"

type_synonym standings = "(int \<times> string) list"

definition winners_standings :: "Match list \<Rightarrow> roster_map \<Rightarrow> standings" where
  "winners_standings winnersBracket rosterToUser =
     (case winnersFinal winnersBracket of
        None \<Rightarrow> []
      | Some final \<Rightarrow>
          if mt_w final \<noteq> None
          then AList.update 2 (lookupName rosterToUser (mt_l final))
                 (AList.update 1 (lookupName rosterToUser (mt_w final)) [])
          else [])"

definition losers_step :: "roster_map \<Rightarrow> Match \<Rightarrow> standings \<Rightarrow> standings" where
  "losers_step rosterToUser match st =
     (case mt_p match of
        None \<Rightarrow> st
      | Some position \<Rightarrow>
          if position \<noteq> 0 \<and> mt_w match \<noteq> None \<and> mt_l match \<noteq> None then
            (let winner = lookupName rosterToUser (mt_w match);
                 loser = lookupName rosterToUser (mt_l match)
             in if position = 3 then AList.update 4 loser (AList.update 3 winner st)
                else if position = 5 then AList.update 6 loser (AList.update 5 winner st)
                else if position = 7 then AList.update 8 loser (AList.update 7 winner st)
                else st)
          else st)"

definition derive_standings :: "Match list \<Rightarrow> Match list \<Rightarrow> roster_map \<Rightarrow> standings" where
  "derive_standings winnersBracket losersBracket rosterToUser =
     fold (losers_step rosterToUser) losersBracket (winners_standings winnersBracket rosterToUser)"

text \<open>\<open>standings[pos]\<close> inside a template literal.\<close>

definition standing_at :: "standings \<Rightarrow> int \<Rightarrow> string" where
  "standing_at st pos = (case map_of st pos of None \<Rightarrow> ''undefined'' | Some name \<Rightarrow> name)"

definition place_line :: "int \<Rightarrow> string \<Rightarrow> string" where
  "place_line pos name =
     (if pos = 1 then emoji_gold @ '' 1st Place: '' @ name
      else if pos = 2 then emoji_silver @ '' 2nd Place: '' @ name
      else if pos = 3 then emoji_bronze @ '' 3rd Place: '' @ name
      else ''   '' @ show_int pos @ ''th Place: '' @ name)"

definition generateFinalStandings ::
    "Match list \<Rightarrow> Match list \<Rightarrow> roster_map \<Rightarrow> string list option" where
  "generateFinalStandings winnersBracket losersBracket rosterToUser =
     (let allMatches = winnersBracket @ losersBracket
      in if \<not> list_all (\<lambda>match. mt_w match \<noteq> None) allMatches then None
         else
           (let st = derive_standings winnersBracket losersBracket rosterToUser
            in if length (map fst st) < 2 then None
               else Some (map (\<lambda>pos. place_line pos (standing_at st pos)) (sorted_number_keys st))))"

subsection \<open>The placement scheme in the words of the specification\<close>

text \<open>The first match of the winners bracket whose round is at least every other round.\<close>

definition final_match :: "Match list \<Rightarrow> Match option" where
  "final_match winnersBracket =
     find (\<lambda>x. \<forall>y \<in> set winnersBracket. mt_r y \<le> mt_r x) winnersBracket"

text \<open>A match decides slot \<open>k\<close> when its \<open>p\<close> is \<open>k\<close> and both outcomes are recorded.\<close>

definition decides :: "int \<Rightarrow> Match \<Rightarrow> bool" where
  "decides k x \<longleftrightarrow> mt_p x = Some k \<and> mt_w x \<noteq> None \<and> mt_l x \<noteq> None"

text \<open>The last match of the losers bracket that decides slot \<open>k\<close>.\<close>

definition deciding_match :: "int \<Rightarrow> Match list \<Rightarrow> Match option" where
  "deciding_match k losersBracket = find (decides k) (rev losersBracket)"

definition placement_pair :: "roster_map \<Rightarrow> int \<Rightarrow> Match option \<Rightarrow> standings" where
  "placement_pair rosterToUser k decided =
     (case decided of
        None \<Rightarrow> []
      | Some x \<Rightarrow> [(k, lookupName rosterToUser (mt_w x)), (k + 1, lookupName rosterToUser (mt_l x))])"

definition expected_places :: "Match list \<Rightarrow> Match list \<Rightarrow> roster_map \<Rightarrow> standings" where
  "expected_places winnersBracket losersBracket rosterToUser =
     placement_pair rosterToUser 1 (final_match winnersBracket)
       @ placement_pair rosterToUser 3 (deciding_match 3 losersBracket)
       @ placement_pair rosterToUser 5 (deciding_match 5 losersBracket)
       @ placement_pair rosterToUser 7 (deciding_match 7 losersBracket)"

text \<open>A match with every optional field absent, for writing concrete brackets.\<close>

definition bare_match :: "int \<Rightarrow> int \<Rightarrow> Match" where
  "bare_match i rn = \<lparr>mt_m = i, mt_r = rn, mt_t1 = None, mt_t2 = None, mt_t1_from = None,
     mt_t2_from = None, mt_w = None, mt_l = None, mt_p = None\<rparr>"

text \<open>The slots the losers bracket writes, laid over the entries already there.\<close>

definition slot_view :: "roster_map \<Rightarrow> Match list \<Rightarrow> (int \<rightharpoonup> string) \<Rightarrow> (int \<rightharpoonup> string)" where
  "slot_view r2u lb base =
     base ++ map_of (placement_pair r2u 3 (deciding_match 3 lb))
          ++ map_of (placement_pair r2u 5 (deciding_match 5 lb))
          ++ map_of (placement_pair r2u 7 (deciding_match 7 lb))"

text \<open>
  A complete pair of brackets: slot 3 is decided by two matches of the losers bracket, and
  the match for slot 5 has a winner but no recorded loser.
\<close>

definition c2_winners :: "Match list" where
  "c2_winners = [bare_match 1 1\<lparr>mt_w := Some 1, mt_l := Some 2\<rparr>]"

definition c2_losers :: "Match list" where
  "c2_losers = [bare_match 1 1\<lparr>mt_w := Some 3, mt_l := Some 4, mt_p := Some 3\<rparr>,
                 bare_match 2 1\<lparr>mt_w := Some 5, mt_l := Some 6, mt_p := Some 3\<rparr>,
                 bare_match 3 1\<lparr>mt_w := Some 7, mt_p := Some 5\<rparr>]"

section \<open>Player directory, cache and resolution\<close>

text \<open>
  Optional fields of the interfaces are \<open>option\<close>s: \<open>None\<close> is an absent (undefined)
  field. The directory is the object sent by the platform, kept as an association list
  in the order of \<open>Object.entries\<close>; \<open>this.players[id]\<close> is \<open>map_of\<close>.
\<close>

record Player =
  pl_first_name :: "string option"
  pl_last_name :: "string option"
  pl_position :: "string option"
  pl_team :: "string option"
  pl_status :: "string option"
  pl_fantasy_positions :: "string list option"

record PlayerSearchItem =
  si_id :: string
  si_name :: string
  si_position :: string
  si_team :: string

record EnrichedPlayer =
  en_player_id :: string
  en_name :: string
  en_position :: string
  en_team :: string
  en_status :: string
  en_fantasy_positions :: "string list"

type_synonym directory = "(string \<times> Player) list"

record CacheData =
  cd_timestamp :: int
  cd_players :: directory

record SleeperAPI =
  players :: directory
  playersLoaded :: bool
  playerSearchItems :: "PlayerSearchItem list"
  playerFuse :: "PlayerSearchItem list option"
  playersCache :: "CacheData option"

text \<open>The state of a newly constructed client.\<close>

definition new_SleeperAPI :: SleeperAPI where
  "new_SleeperAPI = \<lparr>players = [], playersLoaded = False, playerSearchItems = [],
     playerFuse = None, playersCache = None\<rparr>"

text \<open>
  What lies outside the client: the clock (\<open>Date.now()\<close>, in milliseconds), the answer of
  the platform to a directory request (the directory, or a status outside the success
  range), the time such a request takes, and the number of directory requests made so far.
\<close>

datatype response = Ok directory | Failed int

record world =
  now_ms :: int
  players_response :: response
  fetch_ms :: int
  fetches :: nat

datatype error = Error string | TypeError string

definition CACHE_DURATION_HOURS :: int where
  "CACHE_DURATION_HOURS = 24"

text \<open>\<open>String.prototype.trim\<close>, on the ASCII white space and line terminators.\<close>

definition is_space :: "char \<Rightarrow> bool" where
  "is_space c \<longleftrightarrow> c \<in> set [CHR 0x09, CHR 0x0A, CHR 0x0B, CHR 0x0C, CHR 0x0D, CHR 0x20]"

definition trim :: "string \<Rightarrow> string" where
  "trim s = rev (dropWhile is_space (rev (dropWhile is_space s)))"

text \<open>\<open>`${player.first_name || ''} ${player.last_name || ''}`.trim()\<close>\<close>

definition player_name :: "Player \<Rightarrow> string" where
  "player_name player =
     trim (str_or (pl_first_name player) '''' @ '' '' @ str_or (pl_last_name player) '''')"

definition enrichPlayerIds :: "SleeperAPI \<Rightarrow> string list \<Rightarrow> EnrichedPlayer list" where
  "enrichPlayerIds api playerIds =
     map (\<lambda>playerId.
            case map_of (players api) playerId of
              Some player \<Rightarrow>
                \<lparr>en_player_id = playerId,
                 en_name = player_name player,
                 en_position = str_or (pl_position player) '''',
                 en_team = str_or (pl_team player) '''',
                 en_status = str_or (pl_status player) '''',
                 en_fantasy_positions =
                   (case pl_fantasy_positions player of None \<Rightarrow> [] | Some ps \<Rightarrow> ps)\<rparr>
            | None \<Rightarrow>
                \<lparr>en_player_id = playerId,
                 en_name = ''Unknown Player'',
                 en_position = '''',
                 en_team = '''',
                 en_status = ''Unknown'',
                 en_fantasy_positions = []\<rparr>)
         playerIds"

definition getPlayers :: "world \<Rightarrow> (error + directory) \<times> world" where
  "getPlayers w =
     (let w' = w\<lparr>now_ms := now_ms w + fetch_ms w, fetches := fetches w + 1\<rparr>
      in case players_response w of
           Failed st \<Rightarrow> (Inl (Error (''HTTP error! status: '' @ show_int st)), w')
         | Ok playersData \<Rightarrow> (Inr playersData, w'))"

definition search_item :: "string \<times> Player \<Rightarrow> PlayerSearchItem option" where
  "search_item entry =
     (case entry of
        (playerId, player) \<Rightarrow>
          (let name = player_name player
           in if name \<noteq> ''''
              then Some \<lparr>si_id = playerId, si_name = name,
                          si_position = str_or (pl_position player) '''',
                          si_team = str_or (pl_team player) ''''\<rparr>
              else None))"

text \<open>The Fuse index is the collection it was built over; its options are constants.\<close>

definition buildPlayerSearchIndex :: "SleeperAPI \<Rightarrow> SleeperAPI" where
  "buildPlayerSearchIndex api =
     (let items = List.map_filter search_item (players api)
      in api\<lparr>playerSearchItems := items, playerFuse := Some items\<rparr>)"

definition isCacheValid :: "world \<Rightarrow> CacheData \<Rightarrow> bool" where
  "isCacheValid w cacheData =
     (let cacheAge = (of_int (now_ms w) :: rat) / 1000 - of_int (cd_timestamp cacheData)
      in cacheAge < of_int (CACHE_DURATION_HOURS * 3600))"

definition refreshPlayersCache :: "world \<times> SleeperAPI \<Rightarrow> (error + unit) \<times> world \<times> SleeperAPI" where
  "refreshPlayersCache s =
     (case s of
        (w, api) \<Rightarrow>
          (case getPlayers w of
             (Inl e, w') \<Rightarrow> (Inl e, w', api)
           | (Inr playersData, w') \<Rightarrow>
               (Inr (), w',
                buildPlayerSearchIndex
                  (api\<lparr>players := playersData,
                       playersCache :=
                         Some \<lparr>cd_timestamp = \<lfloor>(of_int (now_ms w') :: rat) / 1000\<rfloor>,
                               cd_players = playersData\<rparr>\<rparr>))))"

definition loadPlayersCache :: "world \<times> SleeperAPI \<Rightarrow> (error + unit) \<times> world \<times> SleeperAPI" where
  "loadPlayersCache s =
     (case s of
        (w, api) \<Rightarrow>
          (case playersCache api of
             Some cacheData \<Rightarrow>
               if isCacheValid w cacheData
               then (Inr (), w, buildPlayerSearchIndex (api\<lparr>players := cd_players cacheData\<rparr>))
               else refreshPlayersCache (w, api)
           | None \<Rightarrow> refreshPlayersCache (w, api)))"

definition ensurePlayersLoaded :: "world \<times> SleeperAPI \<Rightarrow> (error + unit) \<times> world \<times> SleeperAPI" where
  "ensurePlayersLoaded s =
     (case s of
        (w, api) \<Rightarrow>
          if \<not> playersLoaded api then
            (case loadPlayersCache (w, api) of
               (Inl e, w', api') \<Rightarrow> (Inl e, w', api')
             | (Inr u, w', api') \<Rightarrow> (Inr (), w', api'\<lparr>playersLoaded := True\<rparr>))
          else (Inr (), w, api))"

text \<open>\<open>this.playerFuse!\<close>: the collection behind the index.\<close>

definition fuse_index :: "SleeperAPI \<Rightarrow> PlayerSearchItem list" where
  "fuse_index api = (case playerFuse api of None \<Rightarrow> [] | Some idx \<Rightarrow> idx)"

text \<open>\<open>if (!this.playerFuse) { this.buildPlayerSearchIndex(); }\<close>\<close>

definition ensure_index :: "SleeperAPI \<Rightarrow> SleeperAPI" where
  "ensure_index api = (if playerFuse api = None then buildPlayerSearchIndex api else api)"

text \<open>
  The fuzzy matcher is the Fuse library, which is not part of the repository: it is a
  parameter, from the indexed collection, the query and the limit to the matches with
  their scores, best first.
\<close>

type_synonym fuse = "PlayerSearchItem list \<Rightarrow> string \<Rightarrow> nat \<Rightarrow> (PlayerSearchItem \<times> rat) list"

record NameMatch =
  nm_playerId :: string
  nm_matchedName :: string
  nm_score :: rat

definition getPlayerIdByName ::
    "fuse \<Rightarrow> world \<times> SleeperAPI \<Rightarrow> string \<Rightarrow> (error + NameMatch option) \<times> world \<times> SleeperAPI" where
  "getPlayerIdByName search s playerName =
     (case ensurePlayersLoaded s of
        (Inl e, w', api') \<Rightarrow> (Inl e, w', api')
      | (Inr u, w', api') \<Rightarrow>
          (let api'' = ensure_index api';
               results = search (fuse_index api'') playerName 1
           in (Inr (case results of
                      [] \<Rightarrow> None
                    | match # _ \<Rightarrow>
                        Some \<lparr>nm_playerId = si_id (fst match), nm_matchedName = si_name (fst match),
                              nm_score = snd match\<rparr>),
               w', api'')))"

text \<open>\<open>/^\d+$/.test(s)\<close>\<close>

definition is_digit :: "char \<Rightarrow> bool" where
  "is_digit c \<longleftrightarrow> c \<in> set ''0123456789''"

definition all_digits :: "string \<Rightarrow> bool" where
  "all_digits s \<longleftrightarrow> s \<noteq> [] \<and> list_all is_digit s"

definition resolvePlayerInput ::
    "fuse \<Rightarrow> world \<times> SleeperAPI \<Rightarrow> string \<Rightarrow> (error + string) \<times> world \<times> SleeperAPI" where
  "resolvePlayerInput search s playerInput =
     (if all_digits playerInput then (Inr playerInput, fst s, snd s)
      else
        (case getPlayerIdByName search s playerInput of
           (Inl e, w', api') \<Rightarrow> (Inl e, w', api')
         | (Inr None, w', api') \<Rightarrow> (Inl (Error (''Player not found: '' @ playerInput)), w', api')
         | (Inr (Some result), w', api') \<Rightarrow> (Inr (nm_playerId result), w', api')))"

text \<open>Concrete data for running the definitions.\<close>

definition josh_allen :: Player where
  "josh_allen = \<lparr>pl_first_name = Some ''Josh'', pl_last_name = Some ''Allen'',
     pl_position = Some ''QB'', pl_team = Some ''BUF'', pl_status = None,
     pl_fantasy_positions = None\<rparr>"

definition small_directory :: directory where
  "small_directory = [(''4046'', josh_allen)]"

text \<open>A stand-in for the fuzzy matcher in concrete runs: exact match on the name.\<close>

definition exact_search :: fuse where
  "exact_search items query limit =
     take limit (map (\<lambda>i. (i, 0)) (filter (\<lambda>i. si_name i = query) items))"

definition world_at :: "int \<Rightarrow> world" where
  "world_at t = \<lparr>now_ms = t, players_response = Ok small_directory, fetch_ms = 250, fetches = 0\<rparr>"

text \<open>The world and the client after a first successful load at time 5, and a failing platform.\<close>

definition loaded_world :: world where
  "loaded_world = (world_at 5)\<lparr>now_ms := 255, fetches := 1\<rparr>"

definition loaded_api :: SleeperAPI where
  "loaded_api = (buildPlayerSearchIndex
      (new_SleeperAPI\<lparr>players := small_directory,
         playersCache := Some \<lparr>cd_timestamp = 0, cd_players = small_directory\<rparr>\<rparr>))
      \<lparr>playersLoaded := True\<rparr>"

definition josh_item :: PlayerSearchItem where
  "josh_item = \<lparr>si_id = ''4046'', si_name = ''Josh Allen'', si_position = ''QB'', si_team = ''BUF''\<rparr>"

definition failing_world :: world where
  "failing_world = (world_at 5)\<lparr>players_response := Failed 503\<rparr>"

section \<open>Table formatters\<close>

text \<open>
  Fractional numbers (points) are rationals, the exact value of the double; \<open>NaN\<close>, the
  infinities and magnitudes from \<open>1e21\<close> on are outside the model. The length of a string
  is its number of bytes.
\<close>

definition padStart :: "nat \<Rightarrow> string \<Rightarrow> string" where
  "padStart n s = replicate (n - length s) (CHR '' '') @ s"

definition padEnd :: "nat \<Rightarrow> string \<Rightarrow> string" where
  "padEnd n s = s @ replicate (n - length s) (CHR '' '')"

text \<open>\<open>Array.prototype.join\<close>\<close>

fun join :: "string \<Rightarrow> string list \<Rightarrow> string" where
  "join sep [] = ''''"
| "join sep [x] = x"
| "join sep (x # y # ys) = x @ sep @ join sep (y # ys)"

definition newline :: string where
  "newline = [CHR 0x0A]"

text \<open>
  \<open>Number.prototype.toFixed\<close>: the sign, then the integer \<open>n\<close> for which \<open>n / 10^f\<close> is
  closest to the magnitude (the larger one on a tie), written with at least \<open>f + 1\<close>
  digits and a point before the last \<open>f\<close>.
\<close>

definition toFixed :: "nat \<Rightarrow> rat \<Rightarrow> string" where
  "toFixed f x =
     (let s = (if x < 0 then ''-'' else '''');
          n = nat \<lfloor>\<bar>x\<bar> * 10 ^ f + 1 / 2\<rfloor>;
          m = digits n;
          m' = (if length m \<le> f then replicate (f + 1 - length m) (CHR ''0'') @ m else m)
      in if f = 0 then s @ m
         else s @ take (length m' - f) m' @ ''.'' @ drop (length m' - f) m')"

text \<open>
  \<open>parseInt\<close> on a decimal string: leading white space, an optional sign, then the longest
  run of digits; \<open>NaN\<close> (here \<open>None\<close>) when there is no digit. The \<open>0x\<close> prefix is not
  modelled.
\<close>

definition digit_value :: "char \<Rightarrow> nat" where
  "digit_value c = of_char c - 48"

definition parseInt :: "string \<Rightarrow> int option" where
  "parseInt s =
     (let t = dropWhile is_space s;
          neg = (t \<noteq> [] \<and> hd t = CHR ''-'');
          u = (if t \<noteq> [] \<and> (hd t = CHR ''-'' \<or> hd t = CHR ''+'') then tl t else t);
          ds = takeWhile is_digit u
      in if ds = [] then None
         else Some ((if neg then - 1 else 1) * int (foldl (\<lambda>a c. 10 * a + digit_value c) 0 ds)))"

text \<open>Running the rows of a table: the first row that throws ends the run.\<close>

fun collect :: "(error + 'a) list \<Rightarrow> error + 'a list" where
  "collect [] = Inr []"
| "collect (Inl e # rs) = Inl e"
| "collect (Inr x # rs) = (case collect rs of Inl e \<Rightarrow> Inl e | Inr xs \<Rightarrow> Inr (x # xs))"

subsection \<open>Rankings\<close>

record RankStats =
  rs_rank_ppr :: "int option"
  rs_pos_rank_ppr :: "int option"
  rs_pts_ppr :: "rat option"

record RankRecord =
  rr_player_id :: "string option"
  rr_stats :: "RankStats option"

text \<open>\<open>player.player_id && player.stats && player.stats.rank_ppr\<close>, by truthiness.\<close>

definition has_id_and_rank :: "RankRecord \<Rightarrow> bool" where
  "has_id_and_rank player \<longleftrightarrow>
     (case rr_player_id player of None \<Rightarrow> False | Some pid \<Rightarrow> pid \<noteq> '''')
     \<and> (case rr_stats player of
          None \<Rightarrow> False
        | Some st \<Rightarrow> (case rs_rank_ppr st of None \<Rightarrow> False | Some k \<Rightarrow> k \<noteq> 0))"

text \<open>\<open>a.stats.rank_ppr\<close> in the comparator, which runs on the filtered records only.\<close>

definition rank_ppr_of :: "RankRecord \<Rightarrow> int" where
  "rank_ppr_of player =
     (case rr_stats player of
        None \<Rightarrow> 0
      | Some st \<Rightarrow> (case rs_rank_ppr st of None \<Rightarrow> 0 | Some k \<Rightarrow> k))"

definition sortedPlayers :: "RankRecord list \<Rightarrow> RankRecord list" where
  "sortedPlayers data = take 200 (sort_key rank_ppr_of (filter has_id_and_rank data))"

definition ranks_header :: string where
  "ranks_header = ''Rank | Pos Rank | Player Name                | Pos | Team | PPR Pts''"

definition undefined_toString :: error where
  "undefined_toString = TypeError ''Cannot read properties of undefined (reading 'toString')''"

definition rank_row :: "SleeperAPI \<Rightarrow> RankRecord \<Rightarrow> error + string" where
  "rank_row api playerData =
     (case (rr_player_id playerData, rr_stats playerData) of
        (Some playerId, Some stats) \<Rightarrow>
          (case (rs_rank_ppr stats, rs_pos_rank_ppr stats) of
             (Some rank_ppr, Some pos_rank_ppr) \<Rightarrow>
               (let player = map_of (players api) playerId;
                    rank = padStart 4 (show_int rank_ppr);
                    posRank = padStart 8 (show_int pos_rank_ppr);
                    name = (case player of None \<Rightarrow> ''Unknown Player'' | Some p \<Rightarrow> player_name p);
                    paddedName = padEnd 26 name;
                    pos = padEnd 3
                      (str_or (case player of None \<Rightarrow> None | Some p \<Rightarrow> pl_position p) ''N/A'');
                    tm = padEnd 4
                      (str_or (case player of None \<Rightarrow> None | Some p \<Rightarrow> pl_team p) ''N/A'');
                    pprPts = padStart 7
                      (toFixed 1 (case rs_pts_ppr stats of None \<Rightarrow> 0 | Some x \<Rightarrow> x))
                in Inr (rank @ '' | '' @ posRank @ '' | '' @ paddedName @ '' | '' @ pos
                          @ '' | '' @ tm @ '' | '' @ pprPts))
           | _ \<Rightarrow> Inl undefined_toString)
      | _ \<Rightarrow> Inl undefined_toString)"

definition formatPlayerRanksTable :: "SleeperAPI \<Rightarrow> RankRecord list \<Rightarrow> error + string" where
  "formatPlayerRanksTable api data =
     (if data = [] then Inr ''No player rankings data available''
      else
        (let separator = replicate (length ranks_header) (CHR ''-'')
         in case collect (map (rank_row api) (sortedPlayers data)) of
              Inl e \<Rightarrow> Inl e
            | Inr rows \<Rightarrow> Inr (join newline (ranks_header # separator # rows))))"

subsection \<open>Matchups\<close>

record LeagueUser =
  lu_user_id :: string
  lu_display_name :: "string option"
  lu_username :: "string option"

record Roster =
  ro_roster_id :: int
  ro_owner_id :: "string option"

text \<open>
  The matchup payload is untyped in the source (\<open>any[]\<close>). Its \<open>matchup_id\<close> is a number
  or \<open>null\<close>, here \<open>None\<close>; used as a property key it is its string, \<open>String(null)\<close> being
  \<open>null\<close>.
\<close>

definition key_string :: "int option \<Rightarrow> string" where
  "key_string v = (case v of None \<Rightarrow> ''null'' | Some k \<Rightarrow> show_int k)"

record Matchup =
  mu_matchup_id :: "int option"
  mu_roster_id :: int
  mu_points :: rat
  mu_starters :: "string list"
  mu_starters_points :: "rat list"

definition emoji_trophy :: string where
  "emoji_trophy = [CHR 0xF0, CHR 0x9F, CHR 0x8F, CHR 0x86]"

definition build_userMap :: "LeagueUser list \<Rightarrow> (string \<rightharpoonup> string)" where
  "build_userMap users =
     fold (\<lambda>user userMap.
             userMap(lu_user_id user \<mapsto>
               str_or (lu_display_name user) (str_or (lu_username user) ''Unknown'')))
       users Map.empty"

definition build_rosterToUser :: "LeagueUser list \<Rightarrow> Roster list \<Rightarrow> roster_map" where
  "build_rosterToUser users rosters =
     fold (\<lambda>roster rosterToUser.
             rosterToUser(ro_roster_id roster \<mapsto>
               str_or (case ro_owner_id roster of None \<Rightarrow> None
                       | Some owner \<Rightarrow> build_userMap users owner) ''Unknown''))
       rosters Map.empty"

definition is_upper :: "char \<Rightarrow> bool" where
  "is_upper c \<longleftrightarrow> c \<in> set ''ABCDEFGHIJKLMNOPQRSTUVWXYZ''"

definition starter_line :: "SleeperAPI \<Rightarrow> string list \<Rightarrow> rat list \<Rightarrow> nat \<Rightarrow> string" where
  "starter_line api starters starterPoints i =
     (let playerId = starters ! i;
          points = (if i < length starterPoints then toFixed 1 (starterPoints ! i) else ''0.0'');
          playerInfo =
            (if playerId = ''0'' then ''Empty Slot''
             else if length playerId \<le> 3 \<and> playerId \<noteq> '''' \<and> list_all is_upper playerId
               then playerId @ '' DST''
             else
               (case map_of (players api) playerId of
                  Some player \<Rightarrow>
                    player_name player @ '' ('' @ str_or (pl_position player) ''N/A'' @ '', ''
                      @ str_or (pl_team player) ''N/A'' @ '')''
                | None \<Rightarrow> ''Unknown Player''))
      in ''  '' @ padEnd 35 playerInfo @ '' '' @ padStart 6 points @ '' pts'')"

definition formatStarters :: "SleeperAPI \<Rightarrow> string list \<Rightarrow> rat list \<Rightarrow> string" where
  "formatStarters api starters starterPoints =
     join newline (map (starter_line api starters starterPoints) [0 ..< length starters])"

text \<open>
  The body of \<open>if (teams.length === 2)\<close>; \<open>teams.sort((a, b) => b.points - a.points)\<close> is a
  stable sort by descending points.
\<close>

definition matchup_block :: "SleeperAPI \<Rightarrow> roster_map \<Rightarrow> string \<Rightarrow> Matchup list \<Rightarrow> string list" where
  "matchup_block api rosterToUser matchupId teams =
     (case sort_key (\<lambda>t. - mu_points t) teams of
        [team1, team2] \<Rightarrow>
          (let winner = (if mu_points team1 > mu_points team2 then Some team1
                         else if mu_points team2 > mu_points team1 then Some team2
                         else None);
               indicator = (\<lambda>team. case winner of
                              None \<Rightarrow> ''''
                            | Some wn \<Rightarrow> if mu_roster_id wn = mu_roster_id team
                                          then '' '' @ emoji_trophy else '''')
           in [''MATCHUP '' @ matchupId,
               replicate 40 (CHR ''-''),
               str_or (rosterToUser (mu_roster_id team1)) ''Unknown'' @ '': ''
                 @ toFixed 2 (mu_points team1) @ indicator team1,
               formatStarters api (mu_starters team1) (mu_starters_points team1),
               '''',
               str_or (rosterToUser (mu_roster_id team2)) ''Unknown'' @ '': ''
                 @ toFixed 2 (mu_points team2) @ indicator team2,
               formatStarters api (mu_starters team2) (mu_starters_points team2),
               ''''])
      | _ \<Rightarrow> [])"

definition undefined_length :: error where
  "undefined_length = TypeError ''Cannot read properties of undefined (reading 'length')''"

text \<open>
  One turn of \<open>for (const matchupId of Object.keys(matchupGroups).sort())\<close>: the key is a
  string, and the group is read back under \<open>parseInt(matchupId)\<close>.
\<close>

definition matchup_turn ::
    "SleeperAPI \<Rightarrow> roster_map \<Rightarrow> (int option \<times> Matchup list) list \<Rightarrow> string
       \<Rightarrow> error + string list" where
  "matchup_turn api rosterToUser matchupGroups matchupId =
     (case parseInt matchupId of
        None \<Rightarrow> Inl undefined_length
      | Some k \<Rightarrow>
          (case map_of matchupGroups (Some k) of
             None \<Rightarrow> Inl undefined_length
           | Some teams \<Rightarrow>
               Inr (if length teams = 2 then matchup_block api rosterToUser matchupId teams
                    else [])))"

definition matchups_title :: "int \<Rightarrow> string list" where
  "matchups_title week = [''WEEK '' @ show_int week @ '' MATCHUPS'', replicate 80 (CHR ''=''), '''']"

definition formatMatchupsTable ::
    "SleeperAPI \<Rightarrow> Matchup list \<Rightarrow> LeagueUser list \<Rightarrow> Roster list \<Rightarrow> int \<Rightarrow> error + string" where
  "formatMatchupsTable api matchups users rosters week =
     (if matchups = [] then Inr ''No matchup data available''
      else
        (let rosterToUser = build_rosterToUser users rosters;
             matchupGroups = group_by_key mu_matchup_id matchups;
             keys = sort (map key_string (map fst matchupGroups))
         in case collect (map (matchup_turn api rosterToUser matchupGroups) keys) of
              Inl e \<Rightarrow> Inl e
            | Inr blocks \<Rightarrow> Inr (join newline (matchups_title week @ concat blocks))))"

text \<open>\<open>stats.pos_rank_ppr\<close> is there: \<open>stats.pos_rank_ppr.toString()\<close> does not throw.\<close>

definition has_pos_rank :: "RankRecord \<Rightarrow> bool" where
  "has_pos_rank player \<longleftrightarrow>
     (case rr_stats player of None \<Rightarrow> False | Some st \<Rightarrow> rs_pos_rank_ppr st \<noteq> None)"


text \<open>Rank records for concrete runs.\<close>

definition rank_record :: "string option \<Rightarrow> int option \<Rightarrow> int option \<Rightarrow> rat option \<Rightarrow> RankRecord" where
  "rank_record pid rk pr pts =
     \<lparr>rr_player_id = pid,
      rr_stats = Some \<lparr>rs_rank_ppr = rk, rs_pos_rank_ppr = pr, rs_pts_ppr = pts\<rparr>\<rparr>"

definition c8_data :: "RankRecord list" where
  "c8_data = [rank_record (Some ''4046'') (Some 2) (Some 1) (Some (5 / 2)),
              rank_record None (Some 1) (Some 1) None,
              rank_record (Some ''9'') (Some 1) (Some 1) None,
              \<lparr>rr_player_id = Some ''7'', rr_stats = None\<rparr>]"

definition c8_api :: SleeperAPI where
  "c8_api = new_SleeperAPI\<lparr>players := small_directory\<rparr>"

text \<open>The numeric ids of the matchup groups, in the order of their decimal strings.\<close>

definition matchup_ids :: "Matchup list \<Rightarrow> int list" where
  "matchup_ids matchups = sort_key show_int (remdups (List.map_filter mu_matchup_id matchups))"

definition matchup_group :: "Matchup list \<Rightarrow> int \<Rightarrow> Matchup list" where
  "matchup_group matchups k = filter (\<lambda>x. mu_matchup_id x = Some k) matchups"


text \<open>A week with one pairing (id 1), a lone entry (id 2) and three entries under id 3.\<close>

definition matchup_entry :: "int option \<Rightarrow> int \<Rightarrow> rat \<Rightarrow> Matchup" where
  "matchup_entry mid rid pts =
     \<lparr>mu_matchup_id = mid, mu_roster_id = rid, mu_points = pts, mu_starters = [],
      mu_starters_points = []\<rparr>"

definition c9_matchups :: "Matchup list" where
  "c9_matchups =
     [matchup_entry (Some 3) 1 9, matchup_entry (Some 1) 2 (3 / 2), matchup_entry (Some 2) 3 8,
      matchup_entry (Some 3) 4 7, matchup_entry (Some 1) 5 2, matchup_entry (Some 3) 6 6]"

text \<open>A week with one pairing (id 1) and one roster without a pairing (id \<open>null\<close>).\<close>

definition c9_bye_week :: "Matchup list" where
  "c9_bye_week =
     [matchup_entry (Some 1) 2 (3 / 2), matchup_entry (Some 1) 5 2, matchup_entry None 3 8]"

definition c9_users :: "LeagueUser list" where
  "c9_users = [\<lparr>lu_user_id = ''u2'', lu_display_name = Some ''Ann'', lu_username = None\<rparr>,
               \<lparr>lu_user_id = ''u5'', lu_display_name = None, lu_username = Some ''bob''\<rparr>]"

definition c9_rosters :: "Roster list" where
  "c9_rosters = [\<lparr>ro_roster_id = 2, ro_owner_id = Some ''u2''\<rparr>,
                 \<lparr>ro_roster_id = 5, ro_owner_id = Some ''u5''\<rparr>]"

section \<open>Properties of the bracket engine\<close>

lemma generateFinalStandings_incomplete:
  assumes "\<not> list_all (\<lambda>match. mt_w match \<noteq> None) (winnersBracket @ losersBracket)"
  shows "generateFinalStandings winnersBracket losersBracket rosterToUser = None"
  using assms by (simp add: generateFinalStandings_def)

lemma find_append:
  "find P (xs @ ys) = (case find P xs of None \<Rightarrow> find P ys | Some x \<Rightarrow> Some x)"
  by (induction xs) simp_all

lemma final_match_snoc:
  assumes "final_match ys = Some a"
  shows "final_match (ys @ [x]) = Some (if mt_r x > mt_r a then x else a)"
proof -
  from assms have a_in: "a \<in> set ys" and a_max: "\<forall>y \<in> set ys. mt_r y \<le> mt_r a"
    unfolding final_match_def by (auto simp: find_Some_iff)
  show ?thesis
  proof (cases "mt_r x > mt_r a")
    case True
    have "find (\<lambda>z. \<forall>y \<in> set (ys @ [x]). mt_r y \<le> mt_r z) ys = None"
      using a_max True by (fastforce simp: find_None_iff)
    then show ?thesis using True a_max
      by (auto simp: final_match_def find_append)
  next
    case False
    have "find (\<lambda>z. \<forall>y \<in> set (ys @ [x]). mt_r y \<le> mt_r z) ys
            = find (\<lambda>z. \<forall>y \<in> set ys. mt_r y \<le> mt_r z) ys"
      using a_in False by (intro find_cong) force+
    then show ?thesis using False assms
      by (simp add: final_match_def find_append)
  qed
qed

lemma fold_final_match:
  "final_match ys = Some a \<Longrightarrow>
   final_match (ys @ xs)
     = Some (fold (\<lambda>match mx. if mt_r match > mt_r mx then match else mx) xs a)"
proof (induction xs arbitrary: ys a)
  case Nil
  then show ?case by simp
next
  case (Cons x xs)
  from final_match_snoc [OF Cons.prems, of x]
  have "final_match ((ys @ [x]) @ xs)
          = Some (fold (\<lambda>match mx. if mt_r match > mt_r mx then match else mx) xs
                    (if mt_r x > mt_r a then x else a))"
    by (rule Cons.IH)
  then show ?case by simp
qed

lemma winnersFinal_is_final_match: "winnersFinal wb = final_match wb"
proof (cases wb)
  case Nil
  then show ?thesis by (simp add: winnersFinal_def final_match_def)
next
  case (Cons first rest)
  have "final_match [first] = Some first" by (simp add: final_match_def)
  from fold_final_match [OF this, of rest] show ?thesis
    using Cons by (simp add: winnersFinal_def)
qed

text \<open>
  Claim C3. Whenever some match of the winners or of the losers bracket has no recorded
  winner, \<open>generateFinalStandings\<close> returns null.
\<close>

theorem C3_missing_winner_gives_null:
  assumes "match \<in> set winnersBracket \<union> set losersBracket" and "mt_w match = None"
  shows "generateFinalStandings winnersBracket losersBracket rosterToUser = None"
proof -
  have "\<not> list_all (\<lambda>x. mt_w x \<noteq> None) (winnersBracket @ losersBracket)"
    using assms by (auto simp: list_all_iff)
  then show ?thesis by (rule generateFinalStandings_incomplete)
qed

theorem C3_witness:
  "bare_match 1 1 \<in> set [bare_match 1 1\<lparr>mt_w := Some 4\<rparr>] \<union> set [bare_match 1 1]
   \<and> mt_w (bare_match 1 1) = None
   \<and> generateFinalStandings [bare_match 1 1\<lparr>mt_w := Some 4\<rparr>] [bare_match 1 1] Map.empty = None"
  using C3_missing_winner_gives_null [of "bare_match 1 1" "[bare_match 1 1\<lparr>mt_w := Some 4\<rparr>]" "[bare_match 1 1]" Map.empty]
  by (simp add: bare_match_def)

lemma losers_step_no_slot:
  "mt_p match \<notin> {Some 3, Some 5, Some 7} \<Longrightarrow> losers_step r2u match st = st"
  by (auto simp: losers_step_def split: option.splits)

lemma fold_losers_no_slot:
  "\<forall>match \<in> set lb. mt_p match \<notin> {Some 3, Some 5, Some 7} \<Longrightarrow> fold (losers_step r2u) lb st = st"
  by (induction lb arbitrary: st) (simp_all add: losers_step_no_slot)

text \<open>
  Claim C10. With every match of both brackets decided, \<open>generateFinalStandings\<close> still
  returns null whenever fewer than two placement entries are derived; an empty winners
  bracket with a losers bracket that has no match for slot 3, 5 or 7 is such a case.
\<close>

theorem C10_fewer_than_two_gives_null:
  assumes "\<forall>match \<in> set (winnersBracket @ losersBracket). mt_w match \<noteq> None"
  shows "(length (derive_standings winnersBracket losersBracket rosterToUser) < 2
           \<longrightarrow> generateFinalStandings winnersBracket losersBracket rosterToUser = None)
       \<and> (winnersBracket = [] \<and> (\<forall>match \<in> set losersBracket. mt_p match \<notin> {Some 3, Some 5, Some 7})
           \<longrightarrow> generateFinalStandings winnersBracket losersBracket rosterToUser = None)"
proof -
  have a: "length (derive_standings winnersBracket losersBracket rosterToUser) < 2
           \<Longrightarrow> generateFinalStandings winnersBracket losersBracket rosterToUser = None"
    by (simp add: generateFinalStandings_def Let_def)
  have b: "derive_standings [] losersBracket rosterToUser = []"
    if "\<forall>match \<in> set losersBracket. mt_p match \<notin> {Some 3, Some 5, Some 7}"
    using that by (simp add: derive_standings_def fold_losers_no_slot winners_standings_def winnersFinal_def)
  show ?thesis using a b by auto
qed

theorem C10_witness:
  "length (derive_standings [] [bare_match 1 1\<lparr>mt_w := Some 1\<rparr>] Map.empty) < 2
   \<and> generateFinalStandings [] [bare_match 1 1\<lparr>mt_w := Some 1\<rparr>] Map.empty = None"
proof -
  have h: "\<forall>match \<in> set ([] @ [bare_match 1 1\<lparr>mt_w := Some 1\<rparr>]). mt_w match \<noteq> None"
    by simp
  have n: "\<forall>match \<in> set [bare_match 1 1\<lparr>mt_w := Some 1\<rparr>].
             mt_p match \<notin> {Some 3, Some 5, Some 7}"
    by (simp add: bare_match_def)
  have "derive_standings [] [bare_match 1 1\<lparr>mt_w := Some 1\<rparr>] Map.empty = []"
    by code_simp
  then show ?thesis
    using C10_fewer_than_two_gives_null [OF h, of Map.empty] n by simp
qed

text \<open>
  Claim C6. A slot with a direct roster id shows the roster map's name for it, or
  \<open>Roster <id>\<close> when the id is unmapped (a name that is the empty string counts as
  unmapped, by \<open>||\<close>); otherwise a forward reference shows \<open>Winner of Match <id>\<close>, or
  \<open>Loser of Match <id>\<close> when it names no winner source; otherwise the slot shows
  \<open>TBD\<close>. The function receives the slot's own fields and the roster map only: no
  match of the bracket, decided or not, is an argument of it.
\<close>

theorem C6_team_name_precedence:
  "getTeamName (Some tid) teamFrom (Some rosterToUser) =
     (case rosterToUser tid of
        None \<Rightarrow> ''Roster '' @ show_int tid
      | Some name \<Rightarrow> if name = '''' then ''Roster '' @ show_int tid else name)
   \<and> getTeamName None (Some \<lparr>from_w = Some k, from_l = other\<rparr>) (Some rosterToUser)
        = ''Winner of Match '' @ show_int k
   \<and> getTeamName None (Some \<lparr>from_w = None, from_l = Some k\<rparr>) (Some rosterToUser)
        = ''Loser of Match '' @ show_int k
   \<and> getTeamName None (Some \<lparr>from_w = None, from_l = None\<rparr>) (Some rosterToUser) = ''TBD''
   \<and> getTeamName None None (Some rosterToUser) = ''TBD''"
  by (simp add: getTeamName_def str_or_def split: option.splits)

text \<open>
  A bracket in which match 1 is decided and a slot of match 2 refers to its winner: the
  slot is shown as the reference, not as roster 4.
\<close>

lemma forward_reference_example:
  "formatBracket
     [bare_match 1 1\<lparr>mt_t1 := Some 4, mt_t2 := Some 5, mt_w := Some 4, mt_l := Some 5\<rparr>,
      bare_match 2 2\<lparr>mt_t1_from := Some \<lparr>from_w = Some 1, from_l = None\<rparr>, mt_t2 := Some 6\<rparr>]
     Map.empty =
   [CHR 0x0A # ''ROUND 1:'', ''--------------------'',
    ''  Match 1: Roster 4 vs Roster 5 - '' @ emoji_check @ '' Roster 4 defeats Roster 5'',
    CHR 0x0A # ''ROUND 2:'', ''--------------------'',
    ''  Match 2: Winner of Match 1 vs Roster 6 - '' @ emoji_hourglass @ '' Pending'']"
  by code_simp

subsection \<open>Final standings\<close>

lemma deciding_match_snoc:
  "deciding_match k (xs @ [x]) = (if decides k x then Some x else deciding_match k xs)"
  by (simp add: deciding_match_def)

lemma deciding_match_Nil: "deciding_match k [] = None"
  by (simp add: deciding_match_def)

lemma decides_unique: "decides j x \<Longrightarrow> decides k x \<Longrightarrow> j = k"
  by (simp add: decides_def)

lemma map_of_losers_step:
  "map_of (losers_step r2u x st) =
     (if decides 3 x then (map_of st)(3 \<mapsto> lookupName r2u (mt_w x), 4 \<mapsto> lookupName r2u (mt_l x))
      else if decides 5 x then (map_of st)(5 \<mapsto> lookupName r2u (mt_w x), 6 \<mapsto> lookupName r2u (mt_l x))
      else if decides 7 x then (map_of st)(7 \<mapsto> lookupName r2u (mt_w x), 8 \<mapsto> lookupName r2u (mt_l x))
      else map_of st)"
  by (auto simp: losers_step_def decides_def Let_def update_conv' split: option.splits)

lemma slot_view_snoc:
  "slot_view r2u (xs @ [x]) base =
     (if decides 3 x then (slot_view r2u xs base)(3 \<mapsto> lookupName r2u (mt_w x), 4 \<mapsto> lookupName r2u (mt_l x))
      else if decides 5 x then (slot_view r2u xs base)(5 \<mapsto> lookupName r2u (mt_w x), 6 \<mapsto> lookupName r2u (mt_l x))
      else if decides 7 x then (slot_view r2u xs base)(7 \<mapsto> lookupName r2u (mt_w x), 8 \<mapsto> lookupName r2u (mt_l x))
      else slot_view r2u xs base)"
proof -
  have excl: "\<not> decides 5 x" "\<not> decides 7 x" if "decides 3 x"
    using that decides_unique [of 3 x 5] decides_unique [of 3 x 7] by auto
  have excl5: "\<not> decides 7 x" if "decides 5 x"
    using that decides_unique [of 5 x 7] by auto
  show ?thesis
    by (rule ext)
       (auto simp: slot_view_def deciding_match_snoc placement_pair_def map_add_def excl excl5
             split: option.splits)
qed

lemma map_of_fold_losers:
  "map_of (fold (losers_step r2u) lb st) = slot_view r2u lb (map_of st)"
proof (induction lb rule: rev_induct)
  case Nil
  then show ?case by (simp add: slot_view_def deciding_match_Nil placement_pair_def)
next
  case (snoc x xs)
  have "map_of (fold (losers_step r2u) (xs @ [x]) st)
          = map_of (losers_step r2u x (fold (losers_step r2u) xs st))"
    by simp
  also have "\<dots> = slot_view r2u (xs @ [x]) (map_of st)"
    unfolding map_of_losers_step snoc slot_view_snoc ..
  finally show ?case .
qed

lemma insort_key_order_iso:
  assumes "\<And>a b. a \<in> insert x (set ys) \<Longrightarrow> b \<in> insert x (set ys) \<Longrightarrow> (f a \<le> f b \<longleftrightarrow> a \<le> b)"
  shows "insort_key f x ys = insort x ys"
  using assms by (induction ys) auto

lemma sort_key_order_iso:
  assumes "\<And>a b. a \<in> set xs \<Longrightarrow> b \<in> set xs \<Longrightarrow> (f a \<le> f b \<longleftrightarrow> a \<le> b)"
  shows "sort_key f xs = sort xs"
  using assms
proof (induction xs)
  case Nil
  then show ?case by simp
next
  case (Cons x xs)
  have "sort_key f xs = sort xs" using Cons by simp
  moreover have "insort_key f x (sort xs) = insort x (sort xs)"
    by (rule insort_key_order_iso) (use Cons.prems in auto)
  ultimately show ?case by simp
qed

lemma digit_char_le:
  "a < 10 \<Longrightarrow> b < 10 \<Longrightarrow> (digit_char a \<le> digit_char b \<longleftrightarrow> a \<le> b)"
  by (simp add: digit_char_def less_eq_char_def)

lemma digit_char_less:
  "a < 10 \<Longrightarrow> b < 10 \<Longrightarrow> (digit_char a < digit_char b \<longleftrightarrow> a < b)"
  by (simp add: digit_char_def less_char_def)

lemma digit_char_inj:
  "a < 10 \<Longrightarrow> b < 10 \<Longrightarrow> (digit_char a = digit_char b \<longleftrightarrow> a = b)"
  using digit_char_le [of a b] digit_char_le [of b a] by auto

lemma show_int_single_digit_le:
  assumes "0 \<le> a" "a < 10" "0 \<le> b" "b < 10"
  shows "show_int a \<le> show_int b \<longleftrightarrow> a \<le> b"
  using assms digit_char_less [of "nat a" "nat b"] digit_char_inj [of "nat a" "nat b"]
  by (auto simp: show_int_def digits.simps)

lemma sorted_number_keys_single_digits:
  assumes "\<forall>k \<in> set (map fst obj). 0 \<le> k \<and> k < 10"
  shows "sorted_number_keys obj = sort (map fst obj)"
  unfolding sorted_number_keys_def
proof (rule sort_key_order_iso)
  fix a b assume "a \<in> set (map fst obj)" "b \<in> set (map fst obj)"
  with assms have "0 \<le> a" "a < 10" "0 \<le> b" "b < 10" by blast+
  then show "show_int a \<le> show_int b \<longleftrightarrow> a \<le> b" by (rule show_int_single_digit_le)
qed

lemma distinct_losers_step:
  "distinct (map fst st) \<Longrightarrow> distinct (map fst (losers_step r2u x st))"
  by (simp add: losers_step_def Let_def distinct_update split: option.splits)

lemma distinct_fold_losers:
  "distinct (map fst st) \<Longrightarrow> distinct (map fst (fold (losers_step r2u) lb st))"
  by (induction lb arbitrary: st) (simp_all add: distinct_losers_step)

lemma distinct_winners_standings: "distinct (map fst (winners_standings wb r2u))"
  by (simp add: winners_standings_def distinct_update split: option.splits)

lemma distinct_derive_standings: "distinct (map fst (derive_standings wb lb r2u))"
  by (simp add: derive_standings_def distinct_fold_losers distinct_winners_standings)

lemma map_of_winners_standings:
  assumes "\<forall>match \<in> set wb. mt_w match \<noteq> None"
  shows "map_of (winners_standings wb r2u) = map_of (placement_pair r2u 1 (final_match wb))"
proof (cases "final_match wb")
  case None
  then show ?thesis
    by (simp add: winners_standings_def winnersFinal_is_final_match placement_pair_def)
next
  case (Some f)
  then have "f \<in> set wb" by (auto simp: final_match_def find_Some_iff)
  with assms have "mt_w f \<noteq> None" by blast
  with Some show ?thesis
    by (auto simp: winners_standings_def winnersFinal_is_final_match placement_pair_def update_conv')
qed

lemma map_of_expected_places:
  "map_of (expected_places wb lb r2u) = slot_view r2u lb (map_of (placement_pair r2u 1 (final_match wb)))"
  by (rule ext)
     (auto simp: expected_places_def slot_view_def placement_pair_def map_add_def
           split: option.splits)

lemma map_of_derive_standings:
  assumes "\<forall>match \<in> set wb. mt_w match \<noteq> None"
  shows "map_of (derive_standings wb lb r2u) = map_of (expected_places wb lb r2u)"
  by (simp add: derive_standings_def map_of_fold_losers map_of_winners_standings [OF assms]
        map_of_expected_places)

lemma keys_placement_pair:
  "map fst (placement_pair r2u k mo) = (if mo = None then [] else [k, k + 1])"
  by (simp add: placement_pair_def split: option.splits)

lemma keys_expected_places:
  "map fst (expected_places wb lb r2u) =
     (if final_match wb = None then [] else [1, 2])
       @ (if deciding_match 3 lb = None then [] else [3, 4])
       @ (if deciding_match 5 lb = None then [] else [5, 6])
       @ (if deciding_match 7 lb = None then [] else [7, 8])"
  by (simp add: expected_places_def keys_placement_pair)

lemma sorted_expected_places: "sorted (map fst (expected_places wb lb r2u))"
  unfolding keys_expected_places by simp

lemma distinct_expected_places: "distinct (map fst (expected_places wb lb r2u))"
  unfolding keys_expected_places by simp

lemma range_expected_places:
  "\<forall>k \<in> set (map fst (expected_places wb lb r2u)). 0 \<le> k \<and> k < 10"
  unfolding keys_expected_places by simp

lemma keys_derive_standings:
  assumes "\<forall>match \<in> set wb. mt_w match \<noteq> None"
  shows "set (map fst (derive_standings wb lb r2u)) = set (map fst (expected_places wb lb r2u))"
proof -
  have "dom (map_of (derive_standings wb lb r2u)) = dom (map_of (expected_places wb lb r2u))"
    by (simp add: map_of_derive_standings [OF assms])
  then show ?thesis by (simp add: dom_map_of_conv_image_fst)
qed

lemma sorted_keys_derive_standings:
  assumes "\<forall>match \<in> set wb. mt_w match \<noteq> None"
  shows "sorted_number_keys (derive_standings wb lb r2u) = map fst (expected_places wb lb r2u)"
proof -
  let ?st = "derive_standings wb lb r2u"
  have "\<forall>k \<in> set (map fst ?st). 0 \<le> k \<and> k < 10"
    using range_expected_places [of wb lb r2u] keys_derive_standings [OF assms, of lb r2u]
    by simp
  then have "sorted_number_keys ?st = sort (map fst ?st)"
    by (rule sorted_number_keys_single_digits)
  also have "\<dots> = map fst (expected_places wb lb r2u)"
  proof (rule sorted_distinct_set_unique)
    show "distinct (sort (map fst ?st))" using distinct_derive_standings [of wb lb r2u] by simp
    show "set (sort (map fst ?st)) = set (map fst (expected_places wb lb r2u))"
      using keys_derive_standings [OF assms, of lb r2u] by simp
  qed (simp_all add: sorted_expected_places distinct_expected_places)
  finally show ?thesis .
qed

lemma length_derive_standings:
  assumes "\<forall>match \<in> set wb. mt_w match \<noteq> None"
  shows "length (derive_standings wb lb r2u) = length (expected_places wb lb r2u)"
proof -
  have "length (sorted_number_keys (derive_standings wb lb r2u))
          = length (map fst (expected_places wb lb r2u))"
    by (simp only: sorted_keys_derive_standings [OF assms])
  then show ?thesis by (simp add: sorted_number_keys_def)
qed

lemma standing_at_expected:
  assumes "\<forall>match \<in> set wb. mt_w match \<noteq> None"
      and "(pos, name) \<in> set (expected_places wb lb r2u)"
  shows "standing_at (derive_standings wb lb r2u) pos = name"
proof -
  have "map_of (expected_places wb lb r2u) pos = Some name"
    using assms(2) distinct_expected_places [of wb lb r2u] by simp
  then show ?thesis
    by (simp add: standing_at_def map_of_derive_standings [OF assms(1)])
qed

text \<open>
  Claim C2, as amended. When every match of both brackets has a recorded winner, the
  standings are exactly the following places, in this order, and null when they are fewer
  than two: 1st and 2nd are the winner and the loser of the first winners-bracket match of
  highest round (none for an empty winners bracket); for each slot \<open>k\<close> of 3, 5, 7, places
  \<open>k\<close> and \<open>k + 1\<close> are the winner and the loser of the last losers-bracket match with
  \<open>p = k\<close> that records both a winner and a loser (none when there is no such match). No
  other place appears.
\<close>

theorem C2_placement_scheme:
  assumes "\<forall>match \<in> set (winnersBracket @ losersBracket). mt_w match \<noteq> None"
  shows "generateFinalStandings winnersBracket losersBracket rosterToUser =
           (if length (expected_places winnersBracket losersBracket rosterToUser) < 2 then None
            else Some (map (\<lambda>(pos, name). place_line pos name)
                         (expected_places winnersBracket losersBracket rosterToUser)))"
proof -
  let ?st = "derive_standings winnersBracket losersBracket rosterToUser"
  let ?E = "expected_places winnersBracket losersBracket rosterToUser"
  from assms have w: "\<forall>match \<in> set winnersBracket. mt_w match \<noteq> None" by simp
  from assms have all: "list_all (\<lambda>match. mt_w match \<noteq> None) (winnersBracket @ losersBracket)"
    by (simp add: list_all_iff)
  have lines: "map (\<lambda>pos. place_line pos (standing_at ?st pos)) (map fst ?E)
                 = map (\<lambda>(pos, name). place_line pos name) ?E"
    using standing_at_expected [OF w] by (auto simp: map_eq_conv)
  show ?thesis
    using all
    by (simp add: generateFinalStandings_def Let_def length_derive_standings [OF w]
          sorted_keys_derive_standings [OF w] lines del: map_map)
qed

text \<open>
  The claim as first stated fails on \<open>c2_winners\<close>, \<open>c2_losers\<close>: the first slot-3 match
  (won by roster 3) places nobody, and the slot-5 match (won by roster 7) places nobody.
\<close>

theorem C2_counterexample:
  "generateFinalStandings c2_winners c2_losers Map.empty =
     Some [emoji_gold @ '' 1st Place: Roster 1'', emoji_silver @ '' 2nd Place: Roster 2'',
           emoji_bronze @ '' 3rd Place: Roster 5'', ''   4th Place: Roster 6'']"
  by code_simp

theorem C2_witness:
  "generateFinalStandings c2_winners c2_losers Map.empty =
     Some (map (\<lambda>(pos, name). place_line pos name)
        [(1, ''Roster 1''), (2, ''Roster 2''), (3, ''Roster 5''), (4, ''Roster 6'')])"
proof -
  have "\<forall>match \<in> set (c2_winners @ c2_losers). mt_w match \<noteq> None"
    by (simp add: c2_winners_def c2_losers_def bare_match_def)
  from C2_placement_scheme [OF this, of Map.empty]
  have "generateFinalStandings c2_winners c2_losers Map.empty =
          (if length (expected_places c2_winners c2_losers Map.empty) < 2 then None
           else Some (map (\<lambda>(pos, name). place_line pos name)
                        (expected_places c2_winners c2_losers Map.empty)))" .
  moreover have "expected_places c2_winners c2_losers Map.empty =
      [(1, ''Roster 1''), (2, ''Roster 2''), (3, ''Roster 5''), (4, ''Roster 6'')]"
    by code_simp
  ultimately show ?thesis by simp
qed

subsection \<open>Grouping and the bracket display\<close>

lemma map_of_group_push:
  "map_of (group_push k x g) =
     (map_of g)(k \<mapsto> (case map_of g k of None \<Rightarrow> [x] | Some ys \<Rightarrow> ys @ [x]))"
  by (simp add: group_push_def update_conv' split: option.splits)

lemma distinct_group_push:
  "distinct (map fst g) \<Longrightarrow> distinct (map fst (group_push k x g))"
  by (simp add: group_push_def distinct_update split: option.splits)

lemma group_by_key_snoc:
  "group_by_key f (xs @ [x]) = group_push (f x) x (group_by_key f xs)"
  by (simp add: group_by_key_def)

lemma map_of_group_by_key:
  "map_of (group_by_key f xs) k =
     (if k \<in> f ` set xs then Some (filter (\<lambda>y. f y = k) xs) else None)"
proof (induction xs rule: rev_induct)
  case Nil
  then show ?case by (simp add: group_by_key_def)
next
  case (snoc x xs)
  have empty: "filter (\<lambda>y. f y = f x) xs = []" if "f x \<notin> f ` set xs"
  proof -
    from that have "\<forall>y \<in> set xs. f y \<noteq> f x" by (metis imageI)
    then show ?thesis by (simp add: filter_empty_conv)
  qed
  show ?case
    using snoc empty
    by (auto simp: group_by_key_snoc map_of_group_push)
qed

lemma distinct_group_by_key: "distinct (map fst (group_by_key f xs))"
  by (induction xs rule: rev_induct)
     (simp_all add: group_by_key_def distinct_group_push)

lemma keys_group_by_key: "set (map fst (group_by_key f xs)) = f ` set xs"
proof -
  have "dom (map_of (group_by_key f xs)) = f ` set xs"
    by (auto simp: map_of_group_by_key dom_def)
  then show ?thesis by (simp add: dom_map_of_conv_image_fst)
qed

text \<open>
  Claim C5 says the rounds are emitted in ascending numeric order. The round numbers are
  sorted by \<open>sort()\<close> with no comparator, hence as strings: a bracket with rounds 2 and
  10 is printed with round 10 first. (The matches of a round are sorted with the numeric
  comparator \<open>a.m - b.m\<close>.)
\<close>

theorem C5_rounds_sorted_as_strings:
  "formatBracket [bare_match 1 2, bare_match 2 10] Map.empty =
     [CHR 0x0A # ''ROUND 10:'', ''--------------------'',
      ''  Match 2: TBD vs TBD - '' @ emoji_hourglass @ '' Pending'',
      CHR 0x0A # ''ROUND 2:'', ''--------------------'',
      ''  Match 1: TBD vs TBD - '' @ emoji_hourglass @ '' Pending'']"
  by code_simp

lemma format_round_group:
  "format_round (group_by_key mt_r bracket) r2u rn =
     round_header rn
       @ map (\<lambda>x. formatMatch x r2u) (sort_key mt_m (filter (\<lambda>x. mt_r x = rn) bracket))"
proof -
  have "filter (\<lambda>x. mt_r x = rn) bracket = []" if "rn \<notin> mt_r ` set bracket"
  proof -
    from that have "\<forall>x \<in> set bracket. mt_r x \<noteq> rn" by (metis imageI)
    then show ?thesis by (simp add: filter_empty_conv)
  qed
  then show ?thesis
    by (auto simp: format_round_def map_of_group_by_key)
qed

lemma formatBracket_by_rounds:
  assumes "bracket \<noteq> []"
  shows "formatBracket bracket r2u =
           concat (map (\<lambda>rn. round_header rn
                          @ map (\<lambda>x. formatMatch x r2u)
                              (sort_key mt_m (filter (\<lambda>x. mt_r x = rn) bracket)))
                    (sorted_number_keys (group_by_key mt_r bracket)))"
  using assms by (simp add: formatBracket_def Let_def format_round_group cong: map_cong)

lemma bracket_round_order:
  "distinct (sorted_number_keys (group_by_key mt_r bracket))
   \<and> set (sorted_number_keys (group_by_key mt_r bracket)) = mt_r ` set bracket
   \<and> sorted (map show_int (sorted_number_keys (group_by_key mt_r bracket)))"
  using distinct_group_by_key [of mt_r bracket] keys_group_by_key [of mt_r bracket]
  by (simp add: sorted_number_keys_def)

lemma matches_of_round_order:
  "sorted (map mt_m (sort_key mt_m (filter (\<lambda>x. mt_r x = rn) bracket)))"
  by simp

section \<open>Properties of the player directory\<close>

text \<open>
  Claim C4, as amended. For a player id present in the loaded directory, enrichment gives,
  at the id's position in the list, a record with the id, the name
  \<open>trim(first + " " + last)\<close> (an absent part counting as empty), the directory's position
  and team (empty when absent), the directory's status, defaulted to the empty string
  when absent, and its fantasy positions, defaulted to the empty list when absent.
\<close>

theorem C4_enrichment_of_known_player:
  assumes "i < length playerIds" and "map_of (players api) (playerIds ! i) = Some player"
  shows "length (enrichPlayerIds api playerIds) = length playerIds
       \<and> enrichPlayerIds api playerIds ! i =
           \<lparr>en_player_id = playerIds ! i,
            en_name = trim (str_or (pl_first_name player) '''' @ '' ''
                              @ str_or (pl_last_name player) ''''),
            en_position = (case pl_position player of None \<Rightarrow> '''' | Some s \<Rightarrow> s),
            en_team = (case pl_team player of None \<Rightarrow> '''' | Some s \<Rightarrow> s),
            en_status = (case pl_status player of None \<Rightarrow> '''' | Some s \<Rightarrow> s),
            en_fantasy_positions = (case pl_fantasy_positions player of None \<Rightarrow> [] | Some ps \<Rightarrow> ps)\<rparr>"
  using assms
  by (simp add: enrichPlayerIds_def player_name_def str_or_def split: option.splits)

text \<open>
  The claim as first stated defaults the status to \<open>Unknown\<close>: for a directory record with no
  status the code gives the empty string (\<open>Unknown\<close> is the status of an id that is not in
  the directory).
\<close>

theorem C4_counterexample:
  "map_of (players (new_SleeperAPI\<lparr>players := small_directory\<rparr>)) ''4046'' = Some josh_allen
   \<and> pl_status josh_allen = None
   \<and> map en_status (enrichPlayerIds (new_SleeperAPI\<lparr>players := small_directory\<rparr>) [''4046'']) = ['''']"
  by (simp add: enrichPlayerIds_def small_directory_def josh_allen_def new_SleeperAPI_def str_or_def)

theorem C4_witness:
  "enrichPlayerIds (new_SleeperAPI\<lparr>players := small_directory\<rparr>) [''4046''] ! 0 =
     \<lparr>en_player_id = ''4046'', en_name = ''Josh Allen'', en_position = ''QB'', en_team = ''BUF'',
      en_status = '''', en_fantasy_positions = []\<rparr>"
proof -
  have a: "(0::nat) < length [''4046'']" by simp
  have b: "map_of (players (new_SleeperAPI\<lparr>players := small_directory\<rparr>)) ([''4046''] ! 0) = Some josh_allen"
    by (simp add: small_directory_def)
  have t: "trim ''Josh Allen'' = ''Josh Allen''" by code_simp
  from C4_enrichment_of_known_player [OF a b] show ?thesis
    by (simp add: josh_allen_def str_or_def t)
qed

subsection \<open>The directory cache\<close>

lemma ensurePlayersLoaded_noop:
  "playersLoaded api \<Longrightarrow> ensurePlayersLoaded (w, api) = (Inr (), w, api)"
  by (simp add: ensurePlayersLoaded_def)

lemma isCacheValid_iff:
  "isCacheValid w c \<longleftrightarrow> now_ms w < (cd_timestamp c + 24 * 3600) * 1000"
proof -
  have "isCacheValid w c \<longleftrightarrow> (of_int (now_ms w) :: rat) / 1000 < of_int (cd_timestamp c + 86400)"
    by (simp add: isCacheValid_def CACHE_DURATION_HOURS_def Let_def algebra_simps)
  also have "\<dots> \<longleftrightarrow> (of_int (now_ms w) :: rat) < of_int ((cd_timestamp c + 86400) * 1000)"
    by (simp add: pos_divide_less_eq)
  also have "\<dots> \<longleftrightarrow> now_ms w < (cd_timestamp c + 86400) * 1000"
    by (rule of_int_less_iff)
  finally show ?thesis by simp
qed

lemma loadPlayersCache_fresh:
  assumes "playersCache api = Some c" and "now_ms w < (cd_timestamp c + 24 * 3600) * 1000"
  shows "loadPlayersCache (w, api) = (Inr (), w, buildPlayerSearchIndex (api\<lparr>players := cd_players c\<rparr>))"
  using assms by (simp add: loadPlayersCache_def isCacheValid_iff)

lemma loadPlayersCache_stale:
  assumes "playersCache api = Some c" and "(cd_timestamp c + 24 * 3600) * 1000 \<le> now_ms w"
  shows "loadPlayersCache (w, api) = refreshPlayersCache (w, api)"
  using assms by (simp add: loadPlayersCache_def isCacheValid_iff)

lemma refreshPlayersCache_fetches:
  "fetches (fst (snd (refreshPlayersCache (w, api)))) = fetches w + 1"
  by (simp add: refreshPlayersCache_def getPlayers_def Let_def split: response.splits)

text \<open>
  Claim C1 says that a query made 24 hours or more after the load refreshes the
  directory. A client constructed at time 1700000000123 ms loads the directory with one
  request and stamps the cache with 1700000000 s; a query 24 h 01 min later finds
  \<open>playersLoaded\<close> set and returns at once: no request, same snapshot, same timestamp.
  The 24 hour test of \<open>isCacheValid\<close> is reached from \<open>loadPlayersCache\<close> only, hence
  only while \<open>playersLoaded\<close> is false.
\<close>

theorem C1_stale_query_does_not_refresh:
  "(case ensurePlayersLoaded (world_at 1700000000123, new_SleeperAPI) of
      (r, w1, api1) \<Rightarrow>
        r = Inr () \<and> fetches w1 = 1
        \<and> map_option cd_timestamp (playersCache api1) = Some 1700000000
        \<and> ensurePlayersLoaded (w1\<lparr>now_ms := 1700000000123 + (24 * 3600 + 60) * 1000\<rparr>, api1)
            = (Inr (), w1\<lparr>now_ms := 1700000000123 + (24 * 3600 + 60) * 1000\<rparr>, api1))"
  by code_simp

subsection \<open>Resolution of a player input\<close>

lemma resolve_digits:
  "all_digits playerInput \<Longrightarrow>
   resolvePlayerInput search (w, api) playerInput = (Inr playerInput, w, api)"
  by (simp add: resolvePlayerInput_def)

lemma getPlayerIdByName_failed:
  "ensurePlayersLoaded s = (Inl e, w', api') \<Longrightarrow>
   getPlayerIdByName search s playerName = (Inl e, w', api')"
  by (simp add: getPlayerIdByName_def)

lemma getPlayerIdByName_loaded:
  "ensurePlayersLoaded s = (Inr (), w', api') \<Longrightarrow>
   getPlayerIdByName search s playerName =
     (Inr (case search (fuse_index (ensure_index api'))
                  playerName 1 of
             [] \<Rightarrow> None
           | match # _ \<Rightarrow>
               Some \<lparr>nm_playerId = si_id (fst match), nm_matchedName = si_name (fst match),
                     nm_score = snd match\<rparr>),
      w', ensure_index api')"
  by (simp add: getPlayerIdByName_def Let_def)

lemma resolve_failed:
  assumes "\<not> all_digits playerInput" and "ensurePlayersLoaded s = (Inl e, w', api')"
  shows "resolvePlayerInput search s playerInput = (Inl e, w', api')"
  using assms(1) by (simp add: resolvePlayerInput_def getPlayerIdByName_failed [OF assms(2)])

lemma resolve_no_match:
  assumes "\<not> all_digits playerInput" and "ensurePlayersLoaded s = (Inr (), w', api')"
      and "search (fuse_index (ensure_index api'))
             playerInput 1 = []"
  shows "fst (resolvePlayerInput search s playerInput)
           = Inl (Error (''Player not found: '' @ playerInput))"
  using assms(1,3)
  by (simp add: resolvePlayerInput_def getPlayerIdByName_loaded [OF assms(2)])

lemma resolve_match:
  assumes "\<not> all_digits playerInput" and "ensurePlayersLoaded s = (Inr (), w', api')"
      and "search (fuse_index (ensure_index api'))
             playerInput 1 = (item, score) # rest"
  shows "fst (resolvePlayerInput search s playerInput) = Inr (si_id item)"
  using assms(1,3)
  by (simp add: resolvePlayerInput_def getPlayerIdByName_loaded [OF assms(2)])


text \<open>
  Claim C7. An input made of digits only (\<open>/^\d+$/\<close>) is returned as it is, and the
  world and the client are unchanged: no directory request, no load, no search. Any other
  input goes through \<open>getPlayerIdByName\<close>: the directory is loaded if it is not yet (an
  error of the request is passed on), the fuzzy matcher is asked once for the single best
  match, the id of that match is returned, and with no match the error
  \<open>Player not found: <input>\<close> is raised.
\<close>

theorem C7_resolve_player_input:
  "(all_digits playerInput \<longrightarrow>
      resolvePlayerInput search (w, api) playerInput = (Inr playerInput, w, api))
   \<and> (\<not> all_digits playerInput \<and> ensurePlayersLoaded (w, api) = (Inl e, w', api') \<longrightarrow>
      resolvePlayerInput search (w, api) playerInput = (Inl e, w', api'))
   \<and> (\<not> all_digits playerInput \<and> ensurePlayersLoaded (w, api) = (Inr (), w', api')
       \<and> search (fuse_index (ensure_index api')) playerInput 1 = [] \<longrightarrow>
      fst (resolvePlayerInput search (w, api) playerInput)
        = Inl (Error (''Player not found: '' @ playerInput)))
   \<and> (\<not> all_digits playerInput \<and> ensurePlayersLoaded (w, api) = (Inr (), w', api')
       \<and> search (fuse_index (ensure_index api')) playerInput 1 = (item, score) # rest \<longrightarrow>
      fst (resolvePlayerInput search (w, api) playerInput) = Inr (si_id item))"
proof (intro conjI impI)
  assume "all_digits playerInput"
  then show "resolvePlayerInput search (w, api) playerInput = (Inr playerInput, w, api)"
    by (rule resolve_digits)
next
  assume "\<not> all_digits playerInput \<and> ensurePlayersLoaded (w, api) = (Inl e, w', api')"
  then show "resolvePlayerInput search (w, api) playerInput = (Inl e, w', api')"
    using resolve_failed by blast
next
  assume "\<not> all_digits playerInput \<and> ensurePlayersLoaded (w, api) = (Inr (), w', api')
       \<and> search (fuse_index (ensure_index api')) playerInput 1 = []"
  then show "fst (resolvePlayerInput search (w, api) playerInput)
        = Inl (Error (''Player not found: '' @ playerInput))"
    using resolve_no_match by blast
next
  assume "\<not> all_digits playerInput \<and> ensurePlayersLoaded (w, api) = (Inr (), w', api')
       \<and> search (fuse_index (ensure_index api')) playerInput 1 = (item, score) # rest"
  then show "fst (resolvePlayerInput search (w, api) playerInput) = Inr (si_id item)"
    using resolve_match by blast
qed

theorem C7_witness:
  "resolvePlayerInput exact_search (world_at 5, new_SleeperAPI) ''4881''
     = (Inr ''4881'', world_at 5, new_SleeperAPI)
   \<and> fst (resolvePlayerInput exact_search (world_at 5, new_SleeperAPI) ''Nobody'')
     = Inl (Error ''Player not found: Nobody'')
   \<and> fst (resolvePlayerInput exact_search (world_at 5, new_SleeperAPI) ''Josh Allen'')
     = Inr ''4046''
   \<and> resolvePlayerInput exact_search (failing_world, new_SleeperAPI) ''Josh''
     = (Inl (Error ''HTTP error! status: 503''),
        failing_world\<lparr>now_ms := 255, fetches := 1\<rparr>, new_SleeperAPI)"
proof -
  have d: "all_digits ''4881''" "\<not> all_digits ''Nobody''" "\<not> all_digits ''Josh Allen''"
    "\<not> all_digits ''Josh''"
    by (simp_all add: all_digits_def is_digit_def)
  have e: "ensurePlayersLoaded (world_at 5, new_SleeperAPI) = (Inr (), loaded_world, loaded_api)"
    by code_simp
  have f: "ensurePlayersLoaded (failing_world, new_SleeperAPI)
           = (Inl (Error ''HTTP error! status: 503''),
              failing_world\<lparr>now_ms := 255, fetches := 1\<rparr>, new_SleeperAPI)"
    by code_simp
  have n: "exact_search (fuse_index (ensure_index loaded_api)) ''Nobody'' 1 = []"
    by code_simp
  have j: "exact_search (fuse_index (ensure_index loaded_api)) ''Josh Allen'' 1 = (josh_item, 0) # []"
    by code_simp
  have i: "si_id josh_item = ''4046''" by (simp add: josh_item_def)
  note t = C7_resolve_player_input [where search = exact_search and api = new_SleeperAPI]
  have 1: "resolvePlayerInput exact_search (world_at 5, new_SleeperAPI) ''4881''
     = (Inr ''4881'', world_at 5, new_SleeperAPI)"
    using t [of "''4881''" "world_at 5"] d(1) by blast
  have 2: "fst (resolvePlayerInput exact_search (world_at 5, new_SleeperAPI) ''Nobody'')
     = Inl (Error (''Player not found: '' @ ''Nobody''))"
    using t [of "''Nobody''" "world_at 5" _ loaded_world loaded_api] d(2) e n by blast
  have 3: "fst (resolvePlayerInput exact_search (world_at 5, new_SleeperAPI) ''Josh Allen'')
     = Inr (si_id josh_item)"
    using t [of "''Josh Allen''" "world_at 5" _ loaded_world loaded_api josh_item 0 "[]"] d(3) e j
    by blast
  have 4: "resolvePlayerInput exact_search (failing_world, new_SleeperAPI) ''Josh''
     = (Inl (Error ''HTTP error! status: 503''),
        failing_world\<lparr>now_ms := 255, fetches := 1\<rparr>, new_SleeperAPI)"
    using t [of "''Josh''" failing_world "Error ''HTTP error! status: 503''"
               "failing_world\<lparr>now_ms := 255, fetches := 1\<rparr>" new_SleeperAPI] d(4) f
    by blast
  from 1 2 3 4 i show ?thesis by simp
qed

section \<open>Properties of the table formatters\<close>

subsection \<open>Rankings\<close>

lemma collect_all_Inr: "collect (map Inr xs) = Inr xs"
  by (induction xs) simp_all

lemma collect_Inr_D: "collect rs = Inr xs \<Longrightarrow> rs = map Inr xs"
proof (induction rs arbitrary: xs)
  case Nil
  then show ?case by simp
next
  case (Cons r rs)
  show ?case
  proof (cases r)
    case (Inl e)
    with Cons.prems show ?thesis by simp
  next
    case (Inr x)
    show ?thesis
    proof (cases "collect rs")
      case (Inl e)
      with Inr Cons.prems show ?thesis by simp
    next
      case inr: (Inr ys)
      with Inr Cons.prems have "xs = x # ys" by simp
      moreover from inr have "rs = map Inr ys" by (rule Cons.IH)
      ultimately show ?thesis using Inr by simp
    qed
  qed
qed

lemma collect_same_error:
  assumes "\<forall>r \<in> set rs. r = Inl e \<or> (\<exists>x. r = Inr x)" and "Inl e \<in> set rs"
  shows "collect rs = Inl e"
  using assms
proof (induction rs)
  case Nil
  then show ?case by simp
next
  case (Cons r rs)
  show ?case
  proof (cases r)
    case (Inl e')
    with Cons.prems(1) show ?thesis by auto
  next
    case (Inr x)
    with Cons.prems have "Inl e \<in> set rs" "\<forall>r \<in> set rs. r = Inl e \<or> (\<exists>x. r = Inr x)" by auto
    then have "collect rs = Inl e" using Cons.IH by blast
    with Inr show ?thesis by simp
  qed
qed

lemma sortedPlayers_length: "length (sortedPlayers data) \<le> 200"
  by (simp add: sortedPlayers_def)

lemma sortedPlayers_sorted: "sorted (map rank_ppr_of (sortedPlayers data))"
proof -
  have "sorted (take 200 (map rank_ppr_of (sort_key rank_ppr_of (filter has_id_and_rank data))))"
    by (rule sorted_wrt_take) simp
  then show ?thesis by (simp add: sortedPlayers_def take_map)
qed

lemma sortedPlayers_subset:
  "player \<in> set (sortedPlayers data) \<Longrightarrow> player \<in> set data \<and> has_id_and_rank player"
proof -
  assume "player \<in> set (sortedPlayers data)"
  then have "player \<in> set (sort_key rank_ppr_of (filter has_id_and_rank data))"
    unfolding sortedPlayers_def using set_take_subset by fastforce
  then show ?thesis by simp
qed

lemma rank_row_cases:
  assumes "has_id_and_rank player"
  shows "(has_pos_rank player \<longrightarrow> (\<exists>line. rank_row api player = Inr line))
       \<and> (\<not> has_pos_rank player \<longrightarrow> rank_row api player = Inl undefined_toString)"
  using assms
  by (auto simp: has_id_and_rank_def has_pos_rank_def rank_row_def Let_def split: option.splits)


lemma rows_when_complete:
  assumes "\<forall>player \<in> set ps. has_id_and_rank player \<and> has_pos_rank player"
  shows "\<exists>rows. map (rank_row api) ps = map Inr rows"
  using assms
proof (induction ps)
  case Nil
  then show ?case by simp
next
  case (Cons p ps)
  then obtain rows where "map (rank_row api) ps = map Inr rows" by auto
  moreover from Cons.prems rank_row_cases [of p api] obtain line where "rank_row api p = Inr line"
    by auto
  ultimately have "map (rank_row api) (p # ps) = map Inr (line # rows)" by simp
  then show ?case by blast
qed

text \<open>
  Claim C8. The rows of the rank table are rendered from \<open>sortedPlayers\<close>, one row per
  record and in its order: these records are at most 200, all of them are records of the
  input that have both a player id and a \<open>stats.rank_ppr\<close> (a truthy one: an empty id and
  rank 0 are filtered out as well), and their \<open>rank_ppr\<close> ascends. The table is returned
  when every selected record has a \<open>pos_rank_ppr\<close>; a selected record without one makes
  the call throw a \<open>TypeError\<close>, and then there is no output at all.
\<close>

theorem C8_rank_rows:
  "length (sortedPlayers data) \<le> 200
   \<and> sorted (map rank_ppr_of (sortedPlayers data))
   \<and> (\<forall>player \<in> set (sortedPlayers data). player \<in> set data \<and> has_id_and_rank player)
   \<and> (data \<noteq> [] \<and> (\<forall>player \<in> set (sortedPlayers data). has_pos_rank player) \<longrightarrow>
        (\<exists>rows. map (rank_row api) (sortedPlayers data) = map Inr rows
           \<and> formatPlayerRanksTable api data
               = Inr (join newline
                   (ranks_header # replicate (length ranks_header) (CHR ''-'') # rows))))
   \<and> (data \<noteq> [] \<and> (\<exists>player \<in> set (sortedPlayers data). \<not> has_pos_rank player) \<longrightarrow>
        formatPlayerRanksTable api data = Inl undefined_toString)"
proof (intro conjI impI)
  show "length (sortedPlayers data) \<le> 200" by (rule sortedPlayers_length)
  show "sorted (map rank_ppr_of (sortedPlayers data))" by (rule sortedPlayers_sorted)
  show "\<forall>player \<in> set (sortedPlayers data). player \<in> set data \<and> has_id_and_rank player"
    using sortedPlayers_subset by blast
next
  assume a: "data \<noteq> [] \<and> (\<forall>player \<in> set (sortedPlayers data). has_pos_rank player)"
  then have "\<forall>player \<in> set (sortedPlayers data). has_id_and_rank player \<and> has_pos_rank player"
    using sortedPlayers_subset by blast
  then obtain rows where r: "map (rank_row api) (sortedPlayers data) = map Inr rows"
    using rows_when_complete by blast
  then have "formatPlayerRanksTable api data
               = Inr (join newline
                   (ranks_header # replicate (length ranks_header) (CHR ''-'') # rows))"
    using a by (simp add: formatPlayerRanksTable_def Let_def collect_all_Inr)
  with r show "\<exists>rows. map (rank_row api) (sortedPlayers data) = map Inr rows
           \<and> formatPlayerRanksTable api data
               = Inr (join newline
                   (ranks_header # replicate (length ranks_header) (CHR ''-'') # rows))"
    by blast
next
  assume a: "data \<noteq> [] \<and> (\<exists>player \<in> set (sortedPlayers data). \<not> has_pos_rank player)"
  then obtain p where p: "p \<in> set (sortedPlayers data)" "\<not> has_pos_rank p" by blast
  then have "rank_row api p = Inl undefined_toString"
    using sortedPlayers_subset [of p data] rank_row_cases [of p api] by blast
  with p(1) have "Inl undefined_toString \<in> set (map (rank_row api) (sortedPlayers data))"
    by force
  moreover have "\<forall>r \<in> set (map (rank_row api) (sortedPlayers data)).
                   r = Inl undefined_toString \<or> (\<exists>x. r = Inr x)"
    using sortedPlayers_subset rank_row_cases by (metis (no_types, lifting) imageE list.set_map)
  ultimately have "collect (map (rank_row api) (sortedPlayers data)) = Inl undefined_toString"
    by (rule collect_same_error [rotated])
  then show "formatPlayerRanksTable api data = Inl undefined_toString"
    using a by (simp add: formatPlayerRanksTable_def Let_def)
qed
lemma map_Inr_inj: "map Inr xs = map Inr ys \<longleftrightarrow> xs = ys"
  by (rule inj_map_eq_map) (simp add: inj_def)

theorem C8_witness:
  "length (sortedPlayers c8_data) \<le> 200
   \<and> map rank_ppr_of (sortedPlayers c8_data) = [1, 2]
   \<and> formatPlayerRanksTable c8_api c8_data =
       Inr (join newline
         [ranks_header, replicate (length ranks_header) (CHR ''-''),
          ''   1 |        1 | Unknown Player             | N/A | N/A  |     0.0'',
          ''   2 |        1 | Josh Allen                 | QB  | BUF  |     2.5''])
   \<and> formatPlayerRanksTable c8_api [rank_record (Some ''9'') (Some 1) None None]
       = Inl undefined_toString"
proof -
  let ?bad = "[rank_record (Some ''9'') (Some 1) None None]"
  have s: "sortedPlayers c8_data =
             [rank_record (Some ''9'') (Some 1) (Some 1) None,
              rank_record (Some ''4046'') (Some 2) (Some 1) (Some (5 / 2))]"
    by code_simp
  have r: "map (rank_row c8_api) (sortedPlayers c8_data) =
             map Inr [''   1 |        1 | Unknown Player             | N/A | N/A  |     0.0'',
                      ''   2 |        1 | Josh Allen                 | QB  | BUF  |     2.5'']"
    by code_simp
  have p: "\<forall>player \<in> set (sortedPlayers c8_data). has_pos_rank player"
    unfolding s by (simp add: has_pos_rank_def rank_record_def)
  have n: "c8_data \<noteq> []" by (simp add: c8_data_def)
  have k: "map rank_ppr_of (sortedPlayers c8_data) = [1, 2]"
    unfolding s by (simp add: rank_ppr_of_def rank_record_def)
  have sb: "sortedPlayers ?bad = ?bad" by code_simp
  have b: "\<exists>player \<in> set (sortedPlayers ?bad). \<not> has_pos_rank player"
    unfolding sb by (simp add: has_pos_rank_def rank_record_def)
  from C8_rank_rows [of c8_data c8_api] n p obtain rows where
    rows: "map (rank_row c8_api) (sortedPlayers c8_data) = map Inr rows"
      "formatPlayerRanksTable c8_api c8_data
         = Inr (join newline (ranks_header # replicate (length ranks_header) (CHR ''-'') # rows))"
    by blast
  from rows(1) r have "rows = [''   1 |        1 | Unknown Player             | N/A | N/A  |     0.0'',
                     ''   2 |        1 | Josh Allen                 | QB  | BUF  |     2.5'']"
    by (simp only: map_Inr_inj)
  with rows(2) have f: "formatPlayerRanksTable c8_api c8_data =
       Inr (join newline
         [ranks_header, replicate (length ranks_header) (CHR ''-''),
          ''   1 |        1 | Unknown Player             | N/A | N/A  |     0.0'',
          ''   2 |        1 | Josh Allen                 | QB  | BUF  |     2.5''])"
    by simp
  have e: "formatPlayerRanksTable c8_api ?bad = Inl undefined_toString"
    using C8_rank_rows [of ?bad c8_api] b by blast
  from sortedPlayers_length [of c8_data] k f e show ?thesis by blast
qed

subsection \<open>Decimal rendering and \<open>parseInt\<close>\<close>

lemma char_eq_via_code: "c = d \<longleftrightarrow> (of_char c :: nat) = of_char d"
  by simp

lemma is_digit_iff: "is_digit c \<longleftrightarrow> 48 \<le> (of_char c :: nat) \<and> (of_char c :: nat) \<le> 57"
proof -
  have "is_digit c \<longleftrightarrow> (of_char c :: nat) \<in> {48, 49, 50, 51, 52, 53, 54, 55, 56, 57}"
    unfolding is_digit_def by (simp add: char_eq_via_code [of c])
  also have "\<dots> \<longleftrightarrow> 48 \<le> (of_char c :: nat) \<and> (of_char c :: nat) \<le> 57"
    by (simp, arith)
  finally show ?thesis .
qed

lemma is_space_iff:
  "is_space c \<longleftrightarrow> (of_char c :: nat) \<in> {9, 10, 11, 12, 13, 32}"
  unfolding is_space_def by (simp add: char_eq_via_code [of c])

lemma of_char_digit_char: "d < 10 \<Longrightarrow> (of_char (digit_char d) :: nat) = 48 + d"
  by (simp add: digit_char_def)

lemma is_digit_digit_char: "d < 10 \<Longrightarrow> is_digit (digit_char d)"
  by (simp add: is_digit_iff of_char_digit_char)

lemma not_space_digit_char: "d < 10 \<Longrightarrow> \<not> is_space (digit_char d)"
  by (auto simp: is_space_iff of_char_digit_char)

lemma not_sign_digit_char:
  "d < 10 \<Longrightarrow> digit_char d \<noteq> CHR ''-'' \<and> digit_char d \<noteq> CHR ''+''"
  by (auto simp: char_eq_via_code [of "digit_char d"] of_char_digit_char)

lemma digit_value_digit_char: "d < 10 \<Longrightarrow> digit_value (digit_char d) = d"
  by (simp add: digit_value_def of_char_digit_char)


lemma is_digit_other:
  "is_digit c \<Longrightarrow> \<not> is_space c \<and> c \<noteq> CHR ''-'' \<and> c \<noteq> CHR ''+''"
  by (auto simp: is_digit_iff is_space_iff)

lemma digits_all_digit: "list_all is_digit (digits n)"
proof (induction n rule: digits.induct)
  case (1 n)
  show ?case
  proof (cases "n < 10")
    case True
    then show ?thesis by (subst digits.simps) (simp add: is_digit_digit_char)
  next
    case False
    with 1 have "list_all is_digit (digits (n div 10))" by simp
    with False show ?thesis by (subst digits.simps) (simp add: is_digit_digit_char)
  qed
qed

lemma digits_not_Nil: "digits n \<noteq> []"
  by (subst digits.simps) simp

lemma digits_value: "foldl (\<lambda>a c. 10 * a + digit_value c) 0 (digits n) = n"
proof (induction n rule: digits.induct)
  case (1 n)
  show ?case
  proof (cases "n < 10")
    case True
    then show ?thesis by (subst digits.simps) (simp add: digit_value_digit_char)
  next
    case False
    with 1 have "foldl (\<lambda>a c. 10 * a + digit_value c) 0 (digits (n div 10)) = n div 10" by simp
    with False show ?thesis by (subst digits.simps) (simp add: digit_value_digit_char)
  qed
qed

lemma parseInt_digits: "parseInt (digits n) = Some (int n)"
proof -
  obtain c cs where d: "digits n = c # cs" using digits_not_Nil [of n] by (cases "digits n") auto
  with digits_all_digit [of n] have c: "is_digit c" and cs: "list_all is_digit cs" by simp_all
  from cs have t: "takeWhile is_digit cs = cs" by (simp add: list_all_iff takeWhile_eq_all_conv)
  from digits_value [of n] d have v: "foldl (\<lambda>a c. 10 * a + digit_value c) (digit_value c) cs = n"
    by simp
  show ?thesis
    using is_digit_other [OF c] c v by (simp add: parseInt_def d Let_def t)
qed

lemma parseInt_minus_digits: "parseInt (CHR ''-'' # digits n) = Some (- int n)"
proof -
  obtain c cs where d: "digits n = c # cs" using digits_not_Nil [of n] by (cases "digits n") auto
  with digits_all_digit [of n] have c: "is_digit c" and cs: "list_all is_digit cs" by simp_all
  from cs have t: "takeWhile is_digit cs = cs" by (simp add: list_all_iff takeWhile_eq_all_conv)
  from digits_value [of n] d have v: "foldl (\<lambda>a c. 10 * a + digit_value c) (digit_value c) cs = n"
    by simp
  have m: "\<not> is_space CHR ''-''" by (simp add: is_space_iff)
  show ?thesis
    using m c v by (simp add: parseInt_def d Let_def t)
qed

lemma parseInt_show_int: "parseInt (show_int k) = Some k"
  by (simp add: show_int_def parseInt_digits parseInt_minus_digits)

lemma inj_show_int: "inj show_int"
  by (rule inj_on_inverseI [where g = "\<lambda>s. the (parseInt s)"]) (simp add: parseInt_show_int)

subsection \<open>Matchups\<close>

lemma map_insort_key: "map f (insort_key f x xs) = insort (f x) (map f xs)"
  by (induction xs) simp_all

lemma map_sort_key: "map f (sort_key f xs) = sort (map f xs)"
  by (induction xs) (simp_all add: map_insort_key)

lemma set_map_filter_iff: "y \<in> set (List.map_filter f xs) \<longleftrightarrow> (\<exists>x \<in> set xs. f x = Some y)"
  by (induction xs) (auto simp: map_filter_simps split: option.splits)

lemma numeric_ids:
  assumes "\<forall>x \<in> set matchups. mu_matchup_id x \<noteq> None"
  shows "mu_matchup_id ` set matchups = Some ` set (List.map_filter mu_matchup_id matchups)"
proof (intro set_eqI iffI)
  fix v assume "v \<in> mu_matchup_id ` set matchups"
  then obtain x where x: "x \<in> set matchups" "v = mu_matchup_id x" by blast
  with assms obtain k where k: "mu_matchup_id x = Some k" by auto
  with x have "k \<in> set (List.map_filter mu_matchup_id matchups)"
    unfolding set_map_filter_iff by blast
  with x k show "v \<in> Some ` set (List.map_filter mu_matchup_id matchups)"
    by simp
next
  fix v assume "v \<in> Some ` set (List.map_filter mu_matchup_id matchups)"
  then show "v \<in> mu_matchup_id ` set matchups"
    by (auto simp: set_map_filter_iff) (metis imageI)
qed

lemma matchup_keys:
  assumes "\<forall>x \<in> set matchups. mu_matchup_id x \<noteq> None"
  shows "sort (map key_string (map fst (group_by_key mu_matchup_id matchups)))
           = map show_int (matchup_ids matchups)"
proof -
  let ?ks = "map fst (group_by_key mu_matchup_id matchups)"
  let ?ids = "remdups (List.map_filter mu_matchup_id matchups)"
  have ks: "set ?ks = Some ` set ?ids"
    using keys_group_by_key [of mu_matchup_id matchups] numeric_ids [OF assms] by simp
  have inj: "inj_on key_string (set ?ks)"
    unfolding ks using inj_show_int by (auto simp: inj_on_def key_string_def dest: injD)
  have "sort (map key_string ?ks) = sort (map show_int ?ids)"
  proof (rule sorted_distinct_set_unique)
    have "distinct (map key_string ?ks)"
      by (rule iffD2 [OF distinct_map])
         (use distinct_group_by_key [of mu_matchup_id matchups] inj in blast)
    then show "distinct (sort (map key_string ?ks))" by (simp only: distinct_sort)
    show "distinct (sort (map show_int ?ids))"
      using inj_show_int by (simp add: distinct_map inj_on_def inj_def)
    have "key_string ` set ?ks = show_int ` set ?ids"
      unfolding ks by (simp add: image_image key_string_def)
    then show "set (sort (map key_string ?ks)) = set (sort (map show_int ?ids))"
      by (simp only: set_sort set_map)
  qed simp_all
  then show ?thesis by (simp add: matchup_ids_def map_sort_key)
qed

lemma matchup_turn_key:
  assumes "k \<in> set (matchup_ids matchups)"
  shows "matchup_turn api r2u (group_by_key mu_matchup_id matchups) (show_int k)
           = Inr (if length (matchup_group matchups k) = 2
                  then matchup_block api r2u (show_int k) (matchup_group matchups k) else [])"
proof -
  from assms have "Some k \<in> mu_matchup_id ` set matchups"
    by (auto simp: matchup_ids_def set_map_filter_iff) (metis imageI)
  then show ?thesis
    by (simp add: matchup_turn_def parseInt_show_int map_of_group_by_key matchup_group_def)
qed

lemma collect_turns:
  "collect (map (matchup_turn api r2u (group_by_key mu_matchup_id matchups))
              (map show_int (matchup_ids matchups)))
     = Inr (map (\<lambda>k. if length (matchup_group matchups k) = 2
                      then matchup_block api r2u (show_int k) (matchup_group matchups k) else [])
              (matchup_ids matchups))"
proof -
  have "map (matchup_turn api r2u (group_by_key mu_matchup_id matchups))
              (map show_int (matchup_ids matchups))
        = map Inr (map (\<lambda>k. if length (matchup_group matchups k) = 2
                      then matchup_block api r2u (show_int k) (matchup_group matchups k) else [])
              (matchup_ids matchups))"
    by (simp add: matchup_turn_key)
  then show ?thesis by (simp only: collect_all_Inr)
qed

lemma concat_map_if:
  "concat (map (\<lambda>k. if P k then f k else []) ks) = concat (map f (filter P ks))"
  by (induction ks) simp_all

lemma matchups_table_numeric_ids:
  assumes "matchups \<noteq> []" and "\<forall>x \<in> set matchups. mu_matchup_id x \<noteq> None"
  shows "formatMatchupsTable api matchups users rosters week =
           Inr (join newline
             (matchups_title week
              @ concat (map (\<lambda>k. matchup_block api (build_rosterToUser users rosters) (show_int k)
                                   (matchup_group matchups k))
                         (filter (\<lambda>k. length (matchup_group matchups k) = 2)
                            (matchup_ids matchups)))))"
  using assms(1)
  by (simp add: formatMatchupsTable_def Let_def matchup_keys [OF assms(2)] collect_turns
        concat_map_if del: map_map)

lemma matchup_block_length:
  "length teams = 2 \<Longrightarrow> length (matchup_block api r2u key teams) = 8"
proof -
  assume "length teams = 2"
  then have "length (sort_key (\<lambda>t. - mu_points t) teams) = 2" by simp
  then obtain a b where "sort_key (\<lambda>t. - mu_points t) teams = [a, b]"
    by (metis (no_types, lifting) One_nat_def Suc_1 length_0_conv length_Suc_conv)
  then show ?thesis by (simp add: matchup_block_def Let_def)
qed

text \<open>
  With numeric ids only, \<open>c9_matchups\<close> has a pairing under id 1, a lone entry under id 2
  and three entries under id 3: the table shows the pairing and nothing else.
\<close>

lemma matchups_table_example:
  "formatMatchupsTable c8_api c9_matchups c9_users c9_rosters 7 =
     Inr (join newline
       [''WEEK 7 MATCHUPS'', replicate 80 (CHR ''=''), '''',
        ''MATCHUP 1'', replicate 40 (CHR ''-''),
        ''bob: 2.00 '' @ emoji_trophy, '''', '''',
        ''Ann: 1.50'', '''', ''''])"
proof -
  let ?r2u = "build_rosterToUser c9_users c9_rosters"
  have n: "c9_matchups \<noteq> []" by (simp add: c9_matchups_def)
  have m: "\<forall>x \<in> set c9_matchups. mu_matchup_id x \<noteq> None"
    by (simp add: c9_matchups_def matchup_entry_def)
  have a: "filter (\<lambda>k. length (matchup_group c9_matchups k) = 2) (matchup_ids c9_matchups) = [1]"
    by code_simp
  have b: "matchup_group c9_matchups 1
             = [matchup_entry (Some 1) 2 (3 / 2), matchup_entry (Some 1) 5 2]"
    by code_simp
  have r: "?r2u 2 = Some ''Ann''" "?r2u 5 = Some ''bob''"
    by (simp_all add: build_rosterToUser_def build_userMap_def c9_users_def c9_rosters_def
          str_or_def)
  have t: "toFixed 2 (3 / 2) = ''1.50''" "toFixed 2 2 = ''2.00''"
    by code_simp+
  have s: "sort_key (\<lambda>t. - mu_points t)
             [matchup_entry (Some 1) 2 (3 / 2), matchup_entry (Some 1) 5 2]
             = [matchup_entry (Some 1) 5 2, matchup_entry (Some 1) 2 (3 / 2)]"
    by (simp add: matchup_entry_def)
  have f: "formatStarters c8_api [] [] = ''''"
    by (simp add: formatStarters_def)
  have k: "show_int 1 = ''1''" "show_int 7 = ''7''" by code_simp+
  have blk: "matchup_block c8_api ?r2u (show_int 1)
               [matchup_entry (Some 1) 2 (3 / 2), matchup_entry (Some 1) 5 2]
               = [''MATCHUP 1'', replicate 40 (CHR ''-''),
                  ''bob: 2.00 '' @ emoji_trophy, '''', '''', ''Ann: 1.50'', '''', '''']"
    unfolding matchup_block_def s
    by (simp add: Let_def matchup_entry_def r t f k str_or_def)
  have ttl: "matchups_title 7 = [''WEEK 7 MATCHUPS'', replicate 80 (CHR ''=''), '''']"
    by (simp add: matchups_title_def k)
  show ?thesis
    unfolding matchups_table_numeric_ids [OF n m] a
    by (simp add: b blk ttl)
qed

lemma parseInt_null: "parseInt ''null'' = None"
  by (simp add: parseInt_def is_space_iff is_digit_iff)

lemma matchup_turn_result:
  "matchup_turn api r2u groups key = Inl undefined_length
   \<or> (\<exists>block. matchup_turn api r2u groups key = Inr block)"
  by (simp add: matchup_turn_def split: option.splits)

text \<open>
  Claim C9 says that a group with one entry, or with more than two, is left out of the
  table without an error. The groups are keyed by \<open>matchup_id\<close> and read back under
  \<open>parseInt\<close> of the key: for the group of the entries whose \<open>matchup_id\<close> is \<open>null\<close> the
  key is \<open>null\<close>, \<open>parseInt\<close> gives \<open>NaN\<close>, no group is found and \<open>teams.length\<close> throws.
  So every matchup list with a \<open>null\<close> id makes the call throw, whatever the size of that
  group and of the others. (With numeric ids only the claim holds: see
  \<open>matchups_table_numeric_ids\<close>.)
\<close>

theorem C9_null_matchup_id_throws:
  assumes "x \<in> set matchups" and "mu_matchup_id x = None"
  shows "formatMatchupsTable api matchups users rosters week = Inl undefined_length"
proof -
  let ?groups = "group_by_key mu_matchup_id matchups"
  let ?keys = "sort (map key_string (map fst ?groups))"
  let ?turn = "matchup_turn api (build_rosterToUser users rosters) ?groups"
  from assms have "None \<in> set (map fst ?groups)"
    unfolding keys_group_by_key by force
  then have "key_string None \<in> set ?keys" by (simp only: set_sort set_map) (rule imageI)
  then have "''null'' \<in> set ?keys" by (simp add: key_string_def)
  moreover have "?turn ''null'' = Inl undefined_length"
    by (simp add: matchup_turn_def parseInt_null)
  ultimately have "Inl undefined_length \<in> set (map ?turn ?keys)" by force
  moreover have "\<forall>r \<in> set (map ?turn ?keys). r = Inl undefined_length \<or> (\<exists>b. r = Inr b)"
    using matchup_turn_result by fastforce
  ultimately have "collect (map ?turn ?keys) = Inl undefined_length"
    by (rule collect_same_error [rotated])
  moreover from assms(1) have "matchups \<noteq> []" by auto
  ultimately show ?thesis by (simp add: formatMatchupsTable_def Let_def)
qed

theorem C9_witness:
  "formatMatchupsTable c8_api c9_bye_week c9_users c9_rosters 7 = Inl undefined_length"
proof -
  have "matchup_entry None 3 8 \<in> set c9_bye_week" by (simp add: c9_bye_week_def)
  moreover have "mu_matchup_id (matchup_entry None 3 8) = None" by (simp add: matchup_entry_def)
  ultimately show ?thesis by (rule C9_null_matchup_id_throws)
qed

end
